theory Spec2Isabelle
  imports Main "HOL-Library.Word"
begin

section \<open>Statement attribute handling (lib/Sema/SemaStmtAttr.cpp)\<close>

subsection \<open>Source locations, statements, expressions\<close>

text \<open>
  A \<open>SourceLocation\<close> is an opaque position; a \<open>SourceRange\<close> is a pair of them.
\<close>

type_synonym SourceLocation = nat

record SourceRange =
  getBegin :: SourceLocation
  getEnd :: SourceLocation

text \<open>
  Only the class of a statement and its start location are read by this file.
  \<open>isa<NullStmt>\<close> holds for \<open>NullStmtClass\<close>, \<open>isa<SwitchCase>\<close> for the two
  subclasses \<open>CaseStmt\<close> and \<open>DefaultStmt\<close>.
\<close>

datatype StmtClass =
    NullStmtClass | CompoundStmtClass | CaseStmtClass | DefaultStmtClass
  | LabelStmtClass | AttributedStmtClass | IfStmtClass | SwitchStmtClass
  | WhileStmtClass | DoStmtClass | ForStmtClass | CXXForRangeStmtClass
  | GotoStmtClass | ContinueStmtClass | BreakStmtClass | ReturnStmtClass
  | DeclStmtClass | OtherStmtClass

record Stmt =
  getStmtClass :: StmtClass
  getLocStart :: SourceLocation

definition isa_NullStmt :: "Stmt \<Rightarrow> bool" where
  "isa_NullStmt St = (getStmtClass St = NullStmtClass)"

definition isa_SwitchCase :: "Stmt \<Rightarrow> bool" where
  "isa_SwitchCase St = (getStmtClass St = CaseStmtClass \<or> getStmtClass St = DefaultStmtClass)"

text \<open>
  The constant evaluator and \<open>llvm::APSInt\<close> are external. An expression is
  represented by what \<open>isIntegerConstantExpr\<close> answers on it: nothing when it is not an
  integer constant expression, otherwise the \<open>APSInt\<close> it stores; and an \<open>APSInt\<close> by
  what \<open>getSExtValue\<close> returns on it, an \<open>int64_t\<close>.
\<close>

datatype APSInt = APSInt (getSExtValue: "64 word")

datatype Expr = Expr (isIntegerConstantExpr: "APSInt option")

subsection \<open>Parsed attributes\<close>

text \<open>
  \<open>IdentifierLoc\<close>: a location and an \<open>IdentifierInfo\<close> pointer, which is null for a
  token that is not an identifier.
\<close>

record IdentifierLoc =
  Loc :: SourceLocation
  Ident :: "string option"

datatype Kind = UnknownAttribute | AT_FallThrough | AT_LoopHint | AT_Other

text \<open>
  An \<open>AttributeList\<close> node. For a loop hint the arguments are: 0 the pragma name,
  1 the option name, 2 the value token, 3 the value expression. The handler reads the
  names of arguments 0 and 1 without a test (argument 1 under an assertion), so they are
  strings here; it tests arguments 2 and 3 for null, so they are optional.
\<close>

record AttributeList =
  getKind :: Kind
  getName :: string
  getLoc :: SourceLocation
  getRange :: SourceRange
  isDeclspecAttribute :: bool
  getAttributeSpellingListIndex :: nat
  PragmaName :: string
  OptionName :: string
  ValueLoc :: "IdentifierLoc option"
  ValueExpr :: "Expr option"

subsection \<open>Semantic attributes\<close>

datatype Spelling = Pragma_clang_loop | Pragma_unroll | Pragma_nounroll

datatype OptionType =
  Vectorize | VectorizeWidth | Interleave | InterleaveCount | Unroll | UnrollCount

text \<open>\<open>LoopHintAttr\<close>; its value is a C++ \<open>int\<close>.\<close>

record LoopHintAttr =
  getSpelling :: Spelling
  getOption :: OptionType
  getValue :: "32 word"
  getHintRange :: SourceRange

datatype Attr =
    FallThroughAttr SourceRange nat
  | LoopHint LoopHintAttr

definition CreateImplicit ::
  "Spelling \<Rightarrow> OptionType \<Rightarrow> 32 word \<Rightarrow> SourceRange \<Rightarrow> Attr" where
  "CreateImplicit Sp Opt V R =
     LoopHint \<lparr>getSpelling = Sp, getOption = Opt, getValue = V, getHintRange = R\<rparr>"

fun dyn_cast_LoopHintAttr :: "Attr \<Rightarrow> LoopHintAttr option" where
  "dyn_cast_LoopHintAttr (LoopHint LH) = Some LH"
| "dyn_cast_LoopHintAttr (FallThroughAttr R i) = None"

subsection \<open>Diagnostics and the state of Sema\<close>

datatype DiagID =
    err_fallthrough_attr_wrong_target
  | note_fallthrough_insert_semi_fixit
  | err_fallthrough_attr_outside_switch
  | err_pragma_loop_precedes_nonloop
  | err_pragma_loop_invalid_keyword
  | err_pragma_loop_invalid_value
  | err_pragma_loop_compatibility
  | warn_unhandled_ms_attribute_ignored
  | warn_unknown_attribute_ignored
  | err_attribute_invalid_on_stmt

text \<open>
  The arguments streamed into a diagnostic with \<open><<\<close>. \<open>getDiagnosticName\<close> is
  generated code; the argument records the hint whose name is streamed.
\<close>

datatype DiagArg =
    ArgLoc SourceLocation
  | ArgStr string
  | ArgBool bool
  | ArgFixItInsertion SourceLocation string
  | ArgDiagnosticName LoopHintAttr

record Diagnostic =
  DiagLoc :: SourceLocation
  ID :: DiagID
  Args :: "DiagArg list"

text \<open>
  What the handlers use of \<open>Sema\<close>: the diagnostics emitted so far, the switch stack of
  the current function, and the lexer query \<open>getLocForEndOfToken\<close>.
\<close>

record Sema =
  Diags :: "Diagnostic list"
  SwitchStack :: "nat list"
  getLocForEndOfToken :: "SourceLocation \<Rightarrow> SourceLocation"

definition Diag :: "Sema \<Rightarrow> SourceLocation \<Rightarrow> DiagID \<Rightarrow> DiagArg list \<Rightarrow> Sema" where
  "Diag S L D As = S\<lparr>Diags := Diags S @ [\<lparr>DiagLoc = L, ID = D, Args = As\<rparr>]\<rparr>"

text \<open>
  The ways a call can end without returning: reading through a null pointer, and
  \<open>llvm_unreachable\<close>.
\<close>

datatype fault = NullDereference | Unreachable

subsection \<open>handleFallThroughAttr\<close>

definition handleFallThroughAttr ::
  "Sema \<Rightarrow> Stmt \<Rightarrow> AttributeList \<Rightarrow> SourceRange \<Rightarrow> Attr option \<times> Sema" where
  "handleFallThroughAttr S St A Rng =
     (if \<not> isa_NullStmt St then
        let S1 = Diag S (getBegin (getRange A)) err_fallthrough_attr_wrong_target
                   [ArgLoc (getLocStart St)];
            S2 = (if isa_SwitchCase St then
                    let L = getLocForEndOfToken S1 (getEnd Rng)
                    in Diag S1 L note_fallthrough_insert_semi_fixit
                         [ArgFixItInsertion L '';'']
                  else S1)
        in (None, S2)
      else if SwitchStack S = [] then
        (None, Diag S (getBegin (getRange A)) err_fallthrough_attr_outside_switch [])
      else
        (Some (FallThroughAttr (getRange A) (getAttributeSpellingListIndex A)), S))"

subsection \<open>handleLoopHintAttr\<close>

text \<open>The spelling shown when a loop hint precedes a statement that is no loop.\<close>

definition Pragma :: "string \<Rightarrow> string" where
  "Pragma n =
     (if n = ''unroll'' then ''#pragma unroll''
      else if n = ''nounroll'' then ''#pragma nounroll''
      else ''#pragma clang loop'')"

text \<open>The \<open>StringSwitch\<close> over the option name of \<open>#pragma clang loop\<close>.\<close>

definition OptionSwitch :: "string \<Rightarrow> OptionType" where
  "OptionSwitch n =
     (if n = ''vectorize'' then Vectorize
      else if n = ''vectorize_width'' then VectorizeWidth
      else if n = ''interleave'' then Interleave
      else if n = ''interleave_count'' then InterleaveCount
      else if n = ''unroll'' then Unroll
      else if n = ''unroll_count'' then UnrollCount
      else Vectorize)"

text \<open>The option and the spelling chosen from the pragma name.\<close>

definition OptionAndSpelling :: "AttributeList \<Rightarrow> OptionType \<times> Spelling" where
  "OptionAndSpelling A =
     (if PragmaName A = ''unroll'' then
        ((if ValueLoc A \<noteq> None then UnrollCount else Unroll), Pragma_unroll)
      else if PragmaName A = ''nounroll'' then (Unroll, Pragma_nounroll)
      else (OptionSwitch (OptionName A), Pragma_clang_loop))"

definition TrueKeyword :: "OptionType \<Rightarrow> string" where
  "TrueKeyword Opt = (if Opt = Unroll then ''full'' else ''enable'')"

text \<open>
  \<open>S.Diag(ValueLoc->Loc, D) << args; return nullptr;\<close> It reads through \<open>ValueLoc\<close>.
\<close>

definition DiagAtValueLoc ::
  "Sema \<Rightarrow> AttributeList \<Rightarrow> DiagID \<Rightarrow> DiagArg list \<Rightarrow> fault + (Attr option \<times> Sema)" where
  "DiagAtValueLoc S A D As =
     (case ValueLoc A of
        None \<Rightarrow> Inl NullDereference
      | Some VL \<Rightarrow> Inr (None, Diag S (Loc VL) D As))"

definition handleLoopHintAttr ::
  "Sema \<Rightarrow> Stmt \<Rightarrow> AttributeList \<Rightarrow> SourceRange \<Rightarrow> fault + (Attr option \<times> Sema)" where
  "handleLoopHintAttr S St A Rng =
     (let ValueInfo = (case ValueLoc A of Some VL \<Rightarrow> Ident VL | None \<Rightarrow> None) in
      if getStmtClass St \<noteq> DoStmtClass \<and> getStmtClass St \<noteq> ForStmtClass \<and>
         getStmtClass St \<noteq> CXXForRangeStmtClass \<and> getStmtClass St \<noteq> WhileStmtClass
      then Inr (None, Diag S (getLocStart St) err_pragma_loop_precedes_nonloop
                        [ArgStr (Pragma (PragmaName A))])
      else
        let (Opt, Sp) = OptionAndSpelling A in
        if Opt = Unroll \<and> Sp = Pragma_unroll then
          Inr (Some (CreateImplicit Sp Opt 1 (getRange A)), S)
        else if Opt = Unroll \<and> Sp = Pragma_nounroll then
          Inr (Some (CreateImplicit Sp Opt 0 (getRange A)), S)
        else if Opt = Vectorize \<or> Opt = Interleave \<or> Opt = Unroll then
          (case ValueInfo of
             None \<Rightarrow> DiagAtValueLoc S A err_pragma_loop_invalid_keyword [ArgStr (TrueKeyword Opt)]
           | Some V \<Rightarrow>
               if V = ''disable'' then Inr (Some (CreateImplicit Sp Opt 0 (getRange A)), S)
               else if V = TrueKeyword Opt then
                 Inr (Some (CreateImplicit Sp Opt 1 (getRange A)), S)
               else DiagAtValueLoc S A err_pragma_loop_invalid_keyword
                      [ArgStr (TrueKeyword Opt)])
        else if Opt = VectorizeWidth \<or> Opt = InterleaveCount \<or> Opt = UnrollCount then
          (case ValueExpr A of
             None \<Rightarrow> DiagAtValueLoc S A err_pragma_loop_invalid_value []
           | Some E \<Rightarrow>
               (case isIntegerConstantExpr E of
                  None \<Rightarrow> DiagAtValueLoc S A err_pragma_loop_invalid_value []
                | Some ValueAPS \<Rightarrow>
                    let ValueInt = (ucast (getSExtValue ValueAPS) :: 32 word) in
                    if sint ValueInt < 1 then DiagAtValueLoc S A err_pragma_loop_invalid_value []
                    else Inr (Some (CreateImplicit Sp Opt ValueInt (getRange A)), S)))
        else Inl Unreachable)"

subsection \<open>CheckForIncompatibleAttributes\<close>

text \<open>
  The three categories of loop hints, and per category the last boolean hint and the last
  numeric hint met so far (the local array \<open>HintAttrs\<close>).
\<close>

datatype Category = CatVectorize | CatInterleave | CatUnroll

record CategoryState =
  EnableAttr :: "LoopHintAttr option"
  NumericAttr :: "LoopHintAttr option"

type_synonym HintAttrs = "Category \<Rightarrow> CategoryState"

fun CategoryOf :: "OptionType \<Rightarrow> Category" where
  "CategoryOf Vectorize = CatVectorize"
| "CategoryOf VectorizeWidth = CatVectorize"
| "CategoryOf Interleave = CatInterleave"
| "CategoryOf InterleaveCount = CatInterleave"
| "CategoryOf Unroll = CatUnroll"
| "CategoryOf UnrollCount = CatUnroll"

text \<open>The body of the loop, for an attribute that is a loop hint.\<close>

definition CheckHint :: "Sema \<times> HintAttrs \<Rightarrow> LoopHintAttr \<Rightarrow> Sema \<times> HintAttrs" where
  "CheckHint SH LH =
     (let (S, HintAttrs) = SH;
          Opt = getOption LH;
          Cat = CategoryOf Opt;
          CatState = HintAttrs Cat;
          OptionLoc = getBegin (getHintRange LH);
          (PrevAttr, CatState1) =
            (if Opt = Vectorize \<or> Opt = Interleave \<or> Opt = Unroll
             then (EnableAttr CatState, CatState\<lparr>EnableAttr := Some LH\<rparr>)
             else (NumericAttr CatState, CatState\<lparr>NumericAttr := Some LH\<rparr>));
          S1 = (case PrevAttr of
                  None \<Rightarrow> S
                | Some P \<Rightarrow> Diag S OptionLoc err_pragma_loop_compatibility
                             [ArgBool True, ArgDiagnosticName P, ArgDiagnosticName LH]);
          S2 = (case EnableAttr CatState1 of
                  None \<Rightarrow> S1
                | Some E \<Rightarrow>
                    (case NumericAttr CatState1 of
                       None \<Rightarrow> S1
                     | Some N \<Rightarrow>
                         if Cat = CatUnroll \<or> getValue E = 0
                         then Diag S1 OptionLoc err_pragma_loop_compatibility
                                [ArgBool False, ArgDiagnosticName E, ArgDiagnosticName N]
                         else S1))
      in (S2, HintAttrs(Cat := CatState1)))"

fun CheckLoop :: "Sema \<times> HintAttrs \<Rightarrow> Attr list \<Rightarrow> Sema \<times> HintAttrs" where
  "CheckLoop SH [] = SH"
| "CheckLoop SH (I # Attrs) =
     (case dyn_cast_LoopHintAttr I of
        None \<Rightarrow> CheckLoop SH Attrs
      | Some LH \<Rightarrow> CheckLoop (CheckHint SH LH) Attrs)"

definition NoHints :: HintAttrs where
  "NoHints = (\<lambda>c. \<lparr>EnableAttr = None, NumericAttr = None\<rparr>)"

definition CheckForIncompatibleAttributes :: "Sema \<Rightarrow> Attr list \<Rightarrow> Sema" where
  "CheckForIncompatibleAttributes S Attrs = fst (CheckLoop (S, NoHints) Attrs)"

subsection \<open>ProcessStmtAttribute and ProcessStmtAttributes\<close>

definition ProcessStmtAttribute ::
  "Sema \<Rightarrow> Stmt \<Rightarrow> AttributeList \<Rightarrow> SourceRange \<Rightarrow> fault + (Attr option \<times> Sema)" where
  "ProcessStmtAttribute S St A Rng =
     (case getKind A of
        UnknownAttribute \<Rightarrow>
          Inr (None, Diag S (getLoc A)
                       (if isDeclspecAttribute A then warn_unhandled_ms_attribute_ignored
                        else warn_unknown_attribute_ignored)
                       [ArgStr (getName A)])
      | AT_FallThrough \<Rightarrow> Inr (handleFallThroughAttr S St A Rng)
      | AT_LoopHint \<Rightarrow> handleLoopHintAttr S St A Rng
      | AT_Other \<Rightarrow>
          Inr (None, Diag S (getBegin (getRange A)) err_attribute_invalid_on_stmt
                       [ArgStr (getName A), ArgLoc (getLocStart St)]))"

text \<open>
  The loop over the attribute list, which appends every attribute that was built to
  \<open>Attrs\<close>.
\<close>

fun ProcessLoop ::
  "Sema \<Rightarrow> Stmt \<Rightarrow> SourceRange \<Rightarrow> Attr list \<Rightarrow> AttributeList list \<Rightarrow> fault + (Attr list \<times> Sema)"
where
  "ProcessLoop S St Rng Attrs [] = Inr (Attrs, S)"
| "ProcessLoop S St Rng Attrs (l # ls) =
     (case ProcessStmtAttribute S St l Rng of
        Inl f \<Rightarrow> Inl f
      | Inr (None, S1) \<Rightarrow> ProcessLoop S1 St Rng Attrs ls
      | Inr (Some a, S1) \<Rightarrow> ProcessLoop S1 St Rng (Attrs @ [a]) ls)"

text \<open>
  The result: the statement itself, or what \<open>ActOnAttributedStmt\<close> is called with.
\<close>

datatype StmtResult =
    PlainStmt Stmt
  | ActOnAttributedStmt SourceLocation "Attr list" Stmt

definition ProcessStmtAttributes ::
  "Sema \<Rightarrow> Stmt \<Rightarrow> AttributeList list \<Rightarrow> SourceRange \<Rightarrow> fault + (StmtResult \<times> Sema)" where
  "ProcessStmtAttributes S St AttrList Rng =
     (case ProcessLoop S St Rng [] AttrList of
        Inl f \<Rightarrow> Inl f
      | Inr (Attrs, S1) \<Rightarrow>
          let S2 = CheckForIncompatibleAttributes S1 Attrs in
          if Attrs = [] then Inr (PlainStmt St, S2)
          else Inr (ActOnAttributedStmt (getBegin Rng) Attrs St, S2))"

section \<open>Notions used to state the properties\<close>

text \<open>The diagnostics a call has added to those of the state it started in.\<close>

definition newDiags :: "Sema \<Rightarrow> Sema \<Rightarrow> Diagnostic list" where
  "newDiags S S' = drop (length (Diags S)) (Diags S')"

text \<open>The loop hints among the attributes of a statement, in order.\<close>

definition hintsOf :: "Attr list \<Rightarrow> LoopHintAttr list" where
  "hintsOf Attrs = List.map_filter dyn_cast_LoopHintAttr Attrs"

definition isEnableForm :: "LoopHintAttr \<Rightarrow> bool" where
  "isEnableForm LH =
     (getOption LH = Vectorize \<or> getOption LH = Interleave \<or> getOption LH = Unroll)"

definition CategoryOfHint :: "LoopHintAttr \<Rightarrow> Category" where
  "CategoryOfHint LH = CategoryOf (getOption LH)"

definition inCategory :: "Category \<Rightarrow> LoopHintAttr list \<Rightarrow> LoopHintAttr list" where
  "inCategory c hs = filter (\<lambda>h. CategoryOfHint h = c) hs"

text \<open>The last hint of a sequence that satisfies \<open>P\<close>, if there is one.\<close>

definition lastHint :: "(LoopHintAttr \<Rightarrow> bool) \<Rightarrow> LoopHintAttr list \<Rightarrow> LoopHintAttr option" where
  "lastHint P hs = (case rev (filter P hs) of [] \<Rightarrow> None | h # _ \<Rightarrow> Some h)"

text \<open>
  A compatibility diagnostic carries the flag \<open>Duplicate\<close> and the names of two hints.
  With the flag set it reports a duplicate, otherwise an incompatibility; its category is
  that of the second hint named (the current hint of a duplicate, the numeric hint of an
  incompatibility).
\<close>

fun CompatibilityArgs :: "DiagArg list \<Rightarrow> (bool \<times> LoopHintAttr \<times> LoopHintAttr) option" where
  "CompatibilityArgs [ArgBool b, ArgDiagnosticName P, ArgDiagnosticName Q] = Some (b, P, Q)"
| "CompatibilityArgs As = None"

definition isDuplicateHint :: "Diagnostic \<Rightarrow> bool" where
  "isDuplicateHint d =
     (ID d = err_pragma_loop_compatibility \<and>
      (case CompatibilityArgs (Args d) of Some (b, P, Q) \<Rightarrow> b | None \<Rightarrow> False))"

definition isIncompatibleHint :: "Diagnostic \<Rightarrow> bool" where
  "isIncompatibleHint d =
     (ID d = err_pragma_loop_compatibility \<and>
      (case CompatibilityArgs (Args d) of Some (b, P, Q) \<Rightarrow> \<not> b | None \<Rightarrow> False))"

definition DiagCategory :: "Diagnostic \<Rightarrow> Category option" where
  "DiagCategory d =
     (case CompatibilityArgs (Args d) of
        Some (b, P, Q) \<Rightarrow> Some (CategoryOfHint Q)
      | None \<Rightarrow> None)"

definition DuplicateHintsIn :: "Category \<Rightarrow> Diagnostic list \<Rightarrow> Diagnostic list" where
  "DuplicateHintsIn c ds = filter (\<lambda>d. isDuplicateHint d \<and> DiagCategory d = Some c) ds"

definition IncompatibleHintsIn :: "Category \<Rightarrow> Diagnostic list \<Rightarrow> Diagnostic list" where
  "IncompatibleHintsIn c ds = filter (\<lambda>d. isIncompatibleHint d \<and> DiagCategory d = Some c) ds"

text \<open>The attributes collected by the loop of \<open>ProcessStmtAttributes\<close>, or its fault.\<close>

definition AttrsOf :: "fault + (Attr list \<times> Sema) \<Rightarrow> fault + Attr list" where
  "AttrsOf r = map_sum id fst r"

text \<open>The option names of \<open>#pragma clang loop\<close> as a lookup table.\<close>

definition OptionTable :: "(string \<times> OptionType) list" where
  "OptionTable =
     [(''vectorize'', Vectorize), (''vectorize_width'', VectorizeWidth),
      (''interleave'', Interleave), (''interleave_count'', InterleaveCount),
      (''unroll'', Unroll), (''unroll_count'', UnrollCount)]"

text \<open>
  The outcome of a rejected numeric value: \<open>err_pragma_loop_invalid_value\<close> at the
  value token and no attribute. The location is read through \<open>ValueLoc\<close>.
\<close>

definition InvalidValue :: "Sema \<Rightarrow> AttributeList \<Rightarrow> fault + (Attr option \<times> Sema)" where
  "InvalidValue S A =
     (case ValueLoc A of
        None \<Rightarrow> Inl NullDereference
      | Some VL \<Rightarrow>
          Inr (None, S\<lparr>Diags := Diags S @
                 [\<lparr>DiagLoc = Loc VL, ID = err_pragma_loop_invalid_value, Args = []\<rparr>]\<rparr>))"

subsection \<open>The checker as a function of the hints alone\<close>

text \<open>
  What one round of the loop of \<open>CheckForIncompatibleAttributes\<close> stores and emits,
  separated from the state of \<open>Sema\<close>; \<open>CheckHint_eq\<close> and \<open>CheckLoop_eq\<close> below relate
  them to the code.
\<close>

definition CompatibilityDiag ::
  "LoopHintAttr \<Rightarrow> bool \<Rightarrow> LoopHintAttr \<Rightarrow> LoopHintAttr \<Rightarrow> Diagnostic" where
  "CompatibilityDiag LH Duplicate P Q =
     \<lparr>DiagLoc = getBegin (getHintRange LH), ID = err_pragma_loop_compatibility,
      Args = [ArgBool Duplicate, ArgDiagnosticName P, ArgDiagnosticName Q]\<rparr>"

definition StoreHint :: "HintAttrs \<Rightarrow> LoopHintAttr \<Rightarrow> HintAttrs" where
  "StoreHint H LH =
     H(CategoryOfHint LH :=
         (if isEnableForm LH then (H (CategoryOfHint LH))\<lparr>EnableAttr := Some LH\<rparr>
          else (H (CategoryOfHint LH))\<lparr>NumericAttr := Some LH\<rparr>))"

definition DuplicateDiags :: "HintAttrs \<Rightarrow> LoopHintAttr \<Rightarrow> Diagnostic list" where
  "DuplicateDiags H LH =
     (case (if isEnableForm LH then EnableAttr (H (CategoryOfHint LH))
            else NumericAttr (H (CategoryOfHint LH))) of
        None \<Rightarrow> []
      | Some P \<Rightarrow> [CompatibilityDiag LH True P LH])"

definition IncompatibleDiags :: "HintAttrs \<Rightarrow> LoopHintAttr \<Rightarrow> Diagnostic list" where
  "IncompatibleDiags H LH =
     (case EnableAttr (StoreHint H LH (CategoryOfHint LH)) of
        None \<Rightarrow> []
      | Some E \<Rightarrow>
          (case NumericAttr (StoreHint H LH (CategoryOfHint LH)) of
             None \<Rightarrow> []
           | Some N \<Rightarrow>
               if CategoryOfHint LH = CatUnroll \<or> getValue E = 0
               then [CompatibilityDiag LH False E N] else []))"

fun LoopDiags :: "HintAttrs \<Rightarrow> LoopHintAttr list \<Rightarrow> Diagnostic list" where
  "LoopDiags H [] = []"
| "LoopDiags H (LH # hs) =
     DuplicateDiags H LH @ IncompatibleDiags H LH @ LoopDiags (StoreHint H LH) hs"

text \<open>Every slot holds a hint of its own category; a category has a slot in use.\<close>

definition slotsInCategory :: "HintAttrs \<Rightarrow> bool" where
  "slotsInCategory H =
     (\<forall>c h. (EnableAttr (H c) = Some h \<longrightarrow> CategoryOfHint h = c) \<and>
            (NumericAttr (H c) = Some h \<longrightarrow> CategoryOfHint h = c))"

definition occupied :: "HintAttrs \<Rightarrow> Category \<Rightarrow> bool" where
  "occupied H c = (EnableAttr (H c) \<noteq> None \<or> NumericAttr (H c) \<noteq> None)"

text \<open>What of a handler's outcome can depend on \<open>Sema\<close> beyond its diagnostics.\<close>

definition relevant :: "fault + (Attr option \<times> Sema) \<Rightarrow> fault + (Attr option \<times> nat list)" where
  "relevant r = map_sum id (\<lambda>(a, T). (a, SwitchStack T)) r"

subsection \<open>Concrete inputs\<close>

definition exSema :: Sema where
  "exSema = \<lparr>Diags = [], SwitchStack = [], getLocForEndOfToken = Suc\<rparr>"

definition exRange :: SourceRange where
  "exRange = \<lparr>getBegin = 10, getEnd = 20\<rparr>"

definition exStmt :: "StmtClass \<Rightarrow> Stmt" where
  "exStmt c = \<lparr>getStmtClass = c, getLocStart = 30\<rparr>"

text \<open>
  A loop hint as the parser hands it over: pragma name, option name, value token and
  value expression. The pragma name of \<open>#pragma clang loop\<close> is \<open>loop\<close>.
\<close>

definition exLoopHint ::
  "string \<Rightarrow> string \<Rightarrow> IdentifierLoc option \<Rightarrow> Expr option \<Rightarrow> AttributeList" where
  "exLoopHint P Opt VL E =
     \<lparr>getKind = AT_LoopHint, getName = ''loop'', getLoc = 10, getRange = exRange,
      isDeclspecAttribute = False, getAttributeSpellingListIndex = 0,
      PragmaName = P, OptionName = Opt, ValueLoc = VL, ValueExpr = E\<rparr>"

definition exFallThrough :: AttributeList where
  "exFallThrough =
     \<lparr>getKind = AT_FallThrough, getName = ''fallthrough'', getLoc = 12,
      getRange = \<lparr>getBegin = 12, getEnd = 18\<rparr>,
      isDeclspecAttribute = False, getAttributeSpellingListIndex = 0,
      PragmaName = [], OptionName = [], ValueLoc = None, ValueExpr = None\<rparr>"

definition exToken :: "string option \<Rightarrow> IdentifierLoc option" where
  "exToken n = Some \<lparr>Loc = 15, Ident = n\<rparr>"

definition exConstant :: "64 word \<Rightarrow> Expr option" where
  "exConstant v = Some (Expr (Some (APSInt v)))"

definition exHint :: "OptionType \<Rightarrow> 32 word \<Rightarrow> SourceLocation \<Rightarrow> LoopHintAttr" where
  "exHint Opt V L =
     \<lparr>getSpelling = Pragma_clang_loop, getOption = Opt, getValue = V,
      getHintRange = \<lparr>getBegin = L, getEnd = L + 5\<rparr>\<rparr>"

section \<open>Facts about the handlers\<close>

subsection \<open>Facts about the decoder\<close>

lemma OptionSwitch_table:
  "OptionSwitch n = (case map_of OptionTable n of Some Opt \<Rightarrow> Opt | None \<Rightarrow> Vectorize)"
  by (simp add: OptionSwitch_def OptionTable_def)

text \<open>A hint that was built carries the option and the spelling chosen from the names.\<close>

lemma handleLoopHintAttr_option:
  assumes "handleLoopHintAttr S St A Rng = Inr (Some (LoopHint LH), S')"
  shows "(getOption LH, getSpelling LH) = OptionAndSpelling A"
proof -
  obtain Opt Sp where os: "OptionAndSpelling A = (Opt, Sp)"
    by (cases "OptionAndSpelling A")
  show ?thesis
    using assms
    unfolding handleLoopHintAttr_def os DiagAtValueLoc_def Diag_def Let_def CreateImplicit_def
    by (cases Opt; cases "ValueLoc A"; cases "ValueExpr A")
       (auto split: option.splits if_splits)
qed

text \<open>The six options are all there are: the final \<open>llvm_unreachable\<close> is never met.\<close>

lemma handleLoopHintAttr_reachable: "handleLoopHintAttr S St A Rng \<noteq> Inl Unreachable"
proof -
  obtain Opt Sp where os: "OptionAndSpelling A = (Opt, Sp)"
    by (cases "OptionAndSpelling A")
  show ?thesis
    unfolding handleLoopHintAttr_def os DiagAtValueLoc_def Diag_def Let_def
    by (cases Opt; cases "ValueLoc A"; cases "ValueExpr A")
       (auto split: option.splits if_splits)
qed

text \<open>Narrowing \<open>int64_t\<close> to \<open>int\<close> keeps the low 32 bits.\<close>

lemma ucast_int64_int: "(ucast (w :: 64 word) :: 32 word) = scast w"
proof -
  have "is_down (ucast :: 64 word \<Rightarrow> 32 word)"
    by (simp add: is_down)
  then have "(ucast :: 64 word \<Rightarrow> 32 word) = scast"
    by (rule down_cast_same)
  then show ?thesis by simp
qed

lemma sint_ucast_in_range:
  fixes w :: "64 word"
  assumes "- (2 ^ 31) \<le> sint w" and "sint w < 2 ^ 31"
  shows "sint (ucast w :: 32 word) = sint w"
proof -
  have "sint (scast w :: 32 word) = signed_take_bit 31 (sint w)"
    by (simp add: signed_scast_eq)
  also have "\<dots> = sint w"
    using assms by (rule signed_take_bit_int_eq_self)
  finally show ?thesis
    by (simp add: ucast_int64_int)
qed

text \<open>The decoder on a loop, for the boolean options of \<open>#pragma clang loop\<close>.\<close>

lemma enable_form_result:
  assumes "getStmtClass St \<in> {DoStmtClass, ForStmtClass, CXXForRangeStmtClass, WhileStmtClass}"
    and "PragmaName A \<noteq> ''unroll''" and "PragmaName A \<noteq> ''nounroll''"
    and "OptionSwitch (OptionName A) = Opt" and "Opt \<in> {Vectorize, Interleave, Unroll}"
    and "ValueLoc A = Some VL"
  shows "handleLoopHintAttr S St A Rng =
     (if Ident VL = Some ''disable'' then
        Inr (Some (LoopHint \<lparr>getSpelling = Pragma_clang_loop, getOption = Opt, getValue = 0,
                              getHintRange = getRange A\<rparr>), S)
      else if Ident VL = Some (if Opt = Unroll then ''full'' else ''enable'') then
        Inr (Some (LoopHint \<lparr>getSpelling = Pragma_clang_loop, getOption = Opt, getValue = 1,
                              getHintRange = getRange A\<rparr>), S)
      else
        Inr (None, S\<lparr>Diags := Diags S @
               [\<lparr>DiagLoc = Loc VL, ID = err_pragma_loop_invalid_keyword,
                 Args = [ArgStr (if Opt = Unroll then ''full'' else ''enable'')]\<rparr>]\<rparr>))"
proof -
  have os: "OptionAndSpelling A = (Opt, Pragma_clang_loop)"
    using assms(2-4) by (simp add: OptionAndSpelling_def)
  have loop: "\<not> (getStmtClass St \<noteq> DoStmtClass \<and> getStmtClass St \<noteq> ForStmtClass \<and>
         getStmtClass St \<noteq> CXXForRangeStmtClass \<and> getStmtClass St \<noteq> WhileStmtClass)"
    using assms(1) by auto
  from assms(5) consider "Opt = Vectorize" | "Opt = Interleave" | "Opt = Unroll" by auto
  then show ?thesis
  proof cases
    case 1
    show ?thesis
      unfolding handleLoopHintAttr_def
      by (cases "Ident VL")
         (simp_all add: os loop 1 assms(6) CreateImplicit_def DiagAtValueLoc_def
            TrueKeyword_def Diag_def)
  next
    case 2
    show ?thesis
      unfolding handleLoopHintAttr_def
      by (cases "Ident VL")
         (simp_all add: os loop 2 assms(6) CreateImplicit_def DiagAtValueLoc_def
            TrueKeyword_def Diag_def)
  next
    case 3
    show ?thesis
      unfolding handleLoopHintAttr_def
      by (cases "Ident VL")
         (simp_all add: os loop 3 assms(6) CreateImplicit_def DiagAtValueLoc_def
            TrueKeyword_def Diag_def)
  qed
qed

text \<open>The decoder on a loop, for the numeric options of \<open>#pragma clang loop\<close>.\<close>

lemma numeric_form_result:
  assumes "getStmtClass St \<in> {DoStmtClass, ForStmtClass, CXXForRangeStmtClass, WhileStmtClass}"
    and "PragmaName A \<noteq> ''unroll''" and "PragmaName A \<noteq> ''nounroll''"
    and "OptionSwitch (OptionName A) = Opt"
    and "Opt \<in> {VectorizeWidth, InterleaveCount, UnrollCount}"
  shows "handleLoopHintAttr S St A Rng =
     (case ValueExpr A of
        None \<Rightarrow> InvalidValue S A
      | Some E \<Rightarrow>
          (case isIntegerConstantExpr E of
             None \<Rightarrow> InvalidValue S A
           | Some V \<Rightarrow>
               if 1 \<le> sint (ucast (getSExtValue V) :: 32 word) then
                 Inr (Some (LoopHint \<lparr>getSpelling = Pragma_clang_loop, getOption = Opt,
                                       getValue = ucast (getSExtValue V),
                                       getHintRange = getRange A\<rparr>), S)
               else InvalidValue S A))"
proof -
  have os: "OptionAndSpelling A = (Opt, Pragma_clang_loop)"
    using assms(2-4) by (simp add: OptionAndSpelling_def)
  have loop: "\<not> (getStmtClass St \<noteq> DoStmtClass \<and> getStmtClass St \<noteq> ForStmtClass \<and>
         getStmtClass St \<noteq> CXXForRangeStmtClass \<and> getStmtClass St \<noteq> WhileStmtClass)"
    using assms(1) by auto
  from assms(5) consider "Opt = VectorizeWidth" | "Opt = InterleaveCount" | "Opt = UnrollCount"
    by auto
  then show ?thesis
  proof cases
    case 1
    show ?thesis
      unfolding handleLoopHintAttr_def
      by (simp add: os loop 1 CreateImplicit_def DiagAtValueLoc_def Diag_def InvalidValue_def
            not_less Let_def split: option.splits)
  next
    case 2
    show ?thesis
      unfolding handleLoopHintAttr_def
      by (simp add: os loop 2 CreateImplicit_def DiagAtValueLoc_def Diag_def InvalidValue_def
            not_less Let_def split: option.splits)
  next
    case 3
    show ?thesis
      unfolding handleLoopHintAttr_def
      by (simp add: os loop 3 CreateImplicit_def DiagAtValueLoc_def Diag_def InvalidValue_def
            not_less Let_def split: option.splits)
  qed
qed

text \<open>
  The diagnostics of a rejected value are located at the value token. The parser passes
  a value token with every hint of \<open>#pragma clang loop\<close>, and the handler does not test
  for it on these paths: without the token the call ends in the read of the location.
\<close>

lemma handleLoopHintAttr_without_value_token:
  "handleLoopHintAttr exSema (exStmt ForStmtClass)
     (exLoopHint ''loop'' ''vectorize'' None None) exRange = Inl NullDereference"
  by (simp add: handleLoopHintAttr_def exStmt_def exLoopHint_def OptionAndSpelling_def
        OptionSwitch_def DiagAtValueLoc_def)

subsection \<open>The attributes built do not depend on the diagnostics emitted before\<close>

lemma handleFallThroughAttr_SwitchStack:
  "SwitchStack (snd (handleFallThroughAttr S St A Rng)) = SwitchStack S"
  by (simp add: handleFallThroughAttr_def Diag_def Let_def)

lemma handleFallThroughAttr_indep:
  "SwitchStack S' = SwitchStack S \<Longrightarrow>
   fst (handleFallThroughAttr S' St A Rng) = fst (handleFallThroughAttr S St A Rng)"
  by (simp add: handleFallThroughAttr_def Diag_def Let_def)

lemma handleLoopHintAttr_indep:
  "SwitchStack S' = SwitchStack S \<Longrightarrow>
   relevant (handleLoopHintAttr S' St A Rng) = relevant (handleLoopHintAttr S St A Rng)"
proof -
  assume ss: "SwitchStack S' = SwitchStack S"
  obtain Opt Sp where os: "OptionAndSpelling A = (Opt, Sp)"
    by (cases "OptionAndSpelling A")
  show ?thesis
    unfolding relevant_def handleLoopHintAttr_def os DiagAtValueLoc_def Diag_def Let_def
    by (cases Opt; cases "ValueLoc A"; cases "ValueExpr A")
       (simp_all add: ss split: option.splits)
qed

lemma ProcessStmtAttribute_indep:
  "SwitchStack S' = SwitchStack S \<Longrightarrow>
   relevant (ProcessStmtAttribute S' St A Rng) = relevant (ProcessStmtAttribute S St A Rng)"
  using handleLoopHintAttr_indep [of S' S St A Rng] handleFallThroughAttr_indep [of S' S St A Rng]
    handleFallThroughAttr_SwitchStack [of S St A Rng]
    handleFallThroughAttr_SwitchStack [of S' St A Rng]
  by (cases "getKind A")
     (simp_all add: ProcessStmtAttribute_def relevant_def Diag_def split_beta)

lemma ProcessLoop_indep:
  "SwitchStack S' = SwitchStack S \<Longrightarrow>
   AttrsOf (ProcessLoop S' St Rng Attrs ls) = AttrsOf (ProcessLoop S St Rng Attrs ls)"
proof (induction ls arbitrary: S S' Attrs)
  case Nil
  show ?case by (simp add: AttrsOf_def)
next
  case (Cons l ls)
  have rel: "relevant (ProcessStmtAttribute S' St l Rng) = relevant (ProcessStmtAttribute S St l Rng)"
    using Cons.prems by (rule ProcessStmtAttribute_indep)
  show ?case
  proof (cases "ProcessStmtAttribute S St l Rng")
    case (Inl f)
    with rel have "ProcessStmtAttribute S' St l Rng = Inl f"
      by (cases "ProcessStmtAttribute S' St l Rng") (simp_all add: relevant_def)
    with Inl show ?thesis by (simp add: AttrsOf_def)
  next
    case (Inr p)
    obtain a T where p: "p = (a, T)" by (cases p)
    from rel Inr p obtain T' where r': "ProcessStmtAttribute S' St l Rng = Inr (a, T')"
      and ss: "SwitchStack T' = SwitchStack T"
      by (cases "ProcessStmtAttribute S' St l Rng") (auto simp add: relevant_def)
    show ?thesis
      using Cons.IH [OF ss] Inr p r' by (cases a) simp_all
  qed
qed

subsection \<open>Facts about the compatibility checker\<close>

lemma CheckHint_eq:
  "CheckHint (S, H) LH =
     (S\<lparr>Diags := Diags S @ DuplicateDiags H LH @ IncompatibleDiags H LH\<rparr>, StoreHint H LH)"
  by (auto simp add: CheckHint_def StoreHint_def DuplicateDiags_def IncompatibleDiags_def
        CompatibilityDiag_def Diag_def Let_def isEnableForm_def CategoryOfHint_def
      split: option.splits)

lemma CheckLoop_eq:
  "CheckLoop (S, H) Attrs =
     (S\<lparr>Diags := Diags S @ LoopDiags H (hintsOf Attrs)\<rparr>, foldl StoreHint H (hintsOf Attrs))"
proof (induction Attrs arbitrary: S H)
  case Nil
  show ?case by (simp add: hintsOf_def)
next
  case (Cons I Attrs)
  show ?case
  proof (cases "dyn_cast_LoopHintAttr I")
    case None
    then show ?thesis using Cons.IH [of S H]
      by (simp add: hintsOf_def)
  next
    case (Some LH)
    then show ?thesis
      using Cons.IH [of "S\<lparr>Diags := Diags S @ DuplicateDiags H LH @ IncompatibleDiags H LH\<rparr>"
                        "StoreHint H LH"]
      by (simp add: hintsOf_def CheckHint_eq)
  qed
qed

lemma hintsOf_append: "hintsOf (xs @ ys) = hintsOf xs @ hintsOf ys"
  by (simp add: hintsOf_def map_filter_def)

lemma hintsOf_LoopHint: "hintsOf [LoopHint LH] = [LH]"
  by (simp add: hintsOf_def)

lemma LoopDiags_append:
  "LoopDiags H (xs @ ys) = LoopDiags H xs @ LoopDiags (foldl StoreHint H xs) ys"
  by (induction xs arbitrary: H) simp_all

lemma newDiags_Check:
  "newDiags S (CheckForIncompatibleAttributes S Attrs) = LoopDiags NoHints (hintsOf Attrs)"
  by (simp add: newDiags_def CheckForIncompatibleAttributes_def CheckLoop_eq)

text \<open>The diagnostics of the round that processes the last hint of a sequence.\<close>

lemma step_newDiags:
  "newDiags (CheckForIncompatibleAttributes S pre)
            (CheckForIncompatibleAttributes S (pre @ [LoopHint LH])) =
   DuplicateDiags (foldl StoreHint NoHints (hintsOf pre)) LH @
   IncompatibleDiags (foldl StoreHint NoHints (hintsOf pre)) LH"
  by (simp add: newDiags_def CheckForIncompatibleAttributes_def CheckLoop_eq hintsOf_append
        hintsOf_LoopHint LoopDiags_append)

lemma filter_isIncompatibleHint_step:
  "filter isIncompatibleHint (DuplicateDiags H LH @ IncompatibleDiags H LH) =
   IncompatibleDiags H LH"
  by (simp add: DuplicateDiags_def IncompatibleDiags_def isIncompatibleHint_def
        CompatibilityDiag_def split: option.splits)

text \<open>The slots hold the last boolean and the last numeric hint of each category.\<close>

lemma lastHint_Nil: "lastHint P [] = None"
  by (simp add: lastHint_def)

lemma lastHint_snoc: "lastHint P (hs @ [h]) = (if P h then Some h else lastHint P hs)"
  by (simp add: lastHint_def)

lemma EnableAttr_StoreHint:
  "EnableAttr (StoreHint H h c) =
     (if isEnableForm h \<and> CategoryOfHint h = c then Some h else EnableAttr (H c))"
  by (simp add: StoreHint_def)

lemma NumericAttr_StoreHint:
  "NumericAttr (StoreHint H h c) =
     (if \<not> isEnableForm h \<and> CategoryOfHint h = c then Some h else NumericAttr (H c))"
  by (simp add: StoreHint_def)

lemma EnableAttr_foldl:
  "EnableAttr (foldl StoreHint H hs c) =
     (case lastHint (\<lambda>h. isEnableForm h \<and> CategoryOfHint h = c) hs of
        None \<Rightarrow> EnableAttr (H c) | Some h \<Rightarrow> Some h)"
  by (induction hs rule: rev_induct)
     (simp_all add: lastHint_Nil lastHint_snoc EnableAttr_StoreHint)

lemma NumericAttr_foldl:
  "NumericAttr (foldl StoreHint H hs c) =
     (case lastHint (\<lambda>h. \<not> isEnableForm h \<and> CategoryOfHint h = c) hs of
        None \<Rightarrow> NumericAttr (H c) | Some h \<Rightarrow> Some h)"
  by (induction hs rule: rev_induct)
     (simp_all add: lastHint_Nil lastHint_snoc NumericAttr_StoreHint)

lemma slots_after_CheckLoop:
  "EnableAttr (snd (CheckLoop (S, NoHints) Attrs) c) =
      lastHint (\<lambda>h. isEnableForm h \<and> CategoryOfHint h = c) (hintsOf Attrs) \<and>
   NumericAttr (snd (CheckLoop (S, NoHints) Attrs) c) =
      lastHint (\<lambda>h. \<not> isEnableForm h \<and> CategoryOfHint h = c) (hintsOf Attrs)"
  by (simp add: CheckLoop_eq EnableAttr_foldl NumericAttr_foldl NoHints_def split: option.splits)

text \<open>Counting the diagnostics of one category, round by round.\<close>

lemma slotsInCategory_NoHints: "slotsInCategory NoHints"
  by (simp add: slotsInCategory_def NoHints_def)

lemma slotsInCategory_StoreHint: "slotsInCategory H \<Longrightarrow> slotsInCategory (StoreHint H LH)"
  by (simp add: slotsInCategory_def EnableAttr_StoreHint NumericAttr_StoreHint)

lemma occupied_StoreHint:
  "occupied (StoreHint H LH) c = (CategoryOfHint LH = c \<or> occupied H c)"
  by (auto simp add: occupied_def EnableAttr_StoreHint NumericAttr_StoreHint)

lemma Duplicate_step_other:
  "CategoryOfHint LH \<noteq> c \<Longrightarrow>
   DuplicateHintsIn c (DuplicateDiags H LH @ IncompatibleDiags H LH) = []"
  by (simp add: DuplicateHintsIn_def DuplicateDiags_def IncompatibleDiags_def
        CompatibilityDiag_def isDuplicateHint_def DiagCategory_def split: option.splits)

lemma Duplicate_step_le:
  "length (DuplicateHintsIn c (DuplicateDiags H LH @ IncompatibleDiags H LH)) \<le> 1"
  by (simp add: DuplicateHintsIn_def DuplicateDiags_def IncompatibleDiags_def
        CompatibilityDiag_def isDuplicateHint_def DiagCategory_def split: option.splits)

lemma Duplicate_step_first:
  "\<not> occupied H (CategoryOfHint LH) \<Longrightarrow>
   DuplicateHintsIn c (DuplicateDiags H LH @ IncompatibleDiags H LH) = []"
  by (simp add: DuplicateHintsIn_def DuplicateDiags_def IncompatibleDiags_def
        CompatibilityDiag_def isDuplicateHint_def DiagCategory_def occupied_def
      split: option.splits)

lemma Incompatible_step_other:
  "slotsInCategory H \<Longrightarrow> CategoryOfHint LH \<noteq> c \<Longrightarrow>
   IncompatibleHintsIn c (DuplicateDiags H LH @ IncompatibleDiags H LH) = []"
  by (auto simp add: IncompatibleHintsIn_def DuplicateDiags_def IncompatibleDiags_def
        CompatibilityDiag_def isIncompatibleHint_def DiagCategory_def slotsInCategory_def
        EnableAttr_StoreHint NumericAttr_StoreHint split: option.splits if_splits)

lemma Incompatible_step_le:
  "length (IncompatibleHintsIn c (DuplicateDiags H LH @ IncompatibleDiags H LH)) \<le> 1"
  by (simp add: IncompatibleHintsIn_def DuplicateDiags_def IncompatibleDiags_def
        CompatibilityDiag_def isIncompatibleHint_def DiagCategory_def split: option.splits)

lemma Incompatible_step_first:
  "\<not> occupied H (CategoryOfHint LH) \<Longrightarrow>
   IncompatibleHintsIn c (DuplicateDiags H LH @ IncompatibleDiags H LH) = []"
  by (auto simp add: IncompatibleHintsIn_def DuplicateDiags_def IncompatibleDiags_def
        CompatibilityDiag_def isIncompatibleHint_def DiagCategory_def occupied_def
        EnableAttr_StoreHint NumericAttr_StoreHint split: option.splits if_splits)

lemma Duplicate_bound:
  "length (DuplicateHintsIn c (LoopDiags H hs))
     \<le> length (inCategory c hs) - (if occupied H c then 0 else 1)"
proof (induction hs arbitrary: H)
  case Nil
  show ?case by (simp add: DuplicateHintsIn_def inCategory_def)
next
  case (Cons LH hs)
  have split: "length (DuplicateHintsIn c (LoopDiags H (LH # hs))) =
      length (DuplicateHintsIn c (DuplicateDiags H LH @ IncompatibleDiags H LH)) +
      length (DuplicateHintsIn c (LoopDiags (StoreHint H LH) hs))"
    by (simp add: DuplicateHintsIn_def)
  show ?case
  proof (cases "CategoryOfHint LH = c")
    case False
    then show ?thesis
      using Cons.IH [of "StoreHint H LH"] Duplicate_step_other [of LH c H]
      by (simp add: split occupied_StoreHint inCategory_def del: LoopDiags.simps)
  next
    case True
    show ?thesis
    proof (cases "occupied H c")
      case occ: True
      then show ?thesis
        using Cons.IH [of "StoreHint H LH"] Duplicate_step_le [of c H LH] True
        by (simp add: split occupied_StoreHint inCategory_def del: LoopDiags.simps
              split: if_splits)
    next
      case False
      then show ?thesis
        using Cons.IH [of "StoreHint H LH"] Duplicate_step_first [of H LH c] True
        by (simp add: split occupied_StoreHint inCategory_def del: LoopDiags.simps
              split: if_splits)
    qed
  qed
qed

lemma Incompatible_bound:
  "slotsInCategory H \<Longrightarrow>
   length (IncompatibleHintsIn c (LoopDiags H hs))
     \<le> length (inCategory c hs) - (if occupied H c then 0 else 1)"
proof (induction hs arbitrary: H)
  case Nil
  show ?case by (simp add: IncompatibleHintsIn_def inCategory_def)
next
  case (Cons LH hs)
  have split: "length (IncompatibleHintsIn c (LoopDiags H (LH # hs))) =
      length (IncompatibleHintsIn c (DuplicateDiags H LH @ IncompatibleDiags H LH)) +
      length (IncompatibleHintsIn c (LoopDiags (StoreHint H LH) hs))"
    by (simp add: IncompatibleHintsIn_def)
  have wf: "slotsInCategory (StoreHint H LH)"
    using Cons.prems by (rule slotsInCategory_StoreHint)
  show ?case
  proof (cases "CategoryOfHint LH = c")
    case False
    then show ?thesis
      using Cons.IH [OF wf] Incompatible_step_other [OF Cons.prems, of LH c]
      by (simp add: split occupied_StoreHint inCategory_def del: LoopDiags.simps)
  next
    case True
    show ?thesis
    proof (cases "occupied H c")
      case occ: True
      then show ?thesis
        using Cons.IH [OF wf] Incompatible_step_le [of c H LH] True
        by (simp add: split occupied_StoreHint inCategory_def del: LoopDiags.simps
              split: if_splits)
    next
      case False
      then show ?thesis
        using Cons.IH [OF wf] Incompatible_step_first [of H LH c] True
        by (simp add: split occupied_StoreHint inCategory_def del: LoopDiags.simps
              split: if_splits)
    qed
  qed
qed

text \<open>One round of the loop, over all categories, and the first hint of a category.\<close>

lemma Duplicate_step_total:
  "length (filter isDuplicateHint (DuplicateDiags H LH @ IncompatibleDiags H LH)) \<le> 1"
  by (simp add: DuplicateDiags_def IncompatibleDiags_def CompatibilityDiag_def
        isDuplicateHint_def split: option.splits)

lemma Incompatible_step_total:
  "length (filter isIncompatibleHint (DuplicateDiags H LH @ IncompatibleDiags H LH)) \<le> 1"
  by (simp add: DuplicateDiags_def IncompatibleDiags_def CompatibilityDiag_def
        isIncompatibleHint_def split: option.splits)

lemma lastHint_inCategory_Nil:
  "inCategory c hs = [] \<Longrightarrow> lastHint (\<lambda>h. P h \<and> CategoryOfHint h = c) hs = None"
proof -
  assume "inCategory c hs = []"
  then have "\<forall>h \<in> set hs. CategoryOfHint h \<noteq> c"
    by (simp add: inCategory_def filter_empty_conv)
  then have "filter (\<lambda>h. P h \<and> CategoryOfHint h = c) hs = []"
    by (simp add: filter_empty_conv)
  then show ?thesis
    by (simp add: lastHint_def)
qed

lemma first_hint_step:
  assumes "inCategory (CategoryOfHint LH) hs = []"
  shows "DuplicateDiags (foldl StoreHint NoHints hs) LH @
         IncompatibleDiags (foldl StoreHint NoHints hs) LH = []"
proof -
  have e: "EnableAttr (foldl StoreHint NoHints hs (CategoryOfHint LH)) = None"
    using lastHint_inCategory_Nil [OF assms, of isEnableForm]
    by (simp add: EnableAttr_foldl NoHints_def)
  have n: "NumericAttr (foldl StoreHint NoHints hs (CategoryOfHint LH)) = None"
    using lastHint_inCategory_Nil [OF assms, of "\<lambda>h. \<not> isEnableForm h"]
    by (simp add: NumericAttr_foldl NoHints_def)
  show ?thesis
    by (simp add: DuplicateDiags_def IncompatibleDiags_def EnableAttr_StoreHint
          NumericAttr_StoreHint e n)
qed

section \<open>Properties of the target checks\<close>

text \<open>
  C5. A fallthrough attribute on a statement that is not a null statement is rejected:
  the handler emits \<open>err_fallthrough_attr_wrong_target\<close> at the start of the attribute,
  with the start of the statement as argument, and returns no attribute. When the
  statement is a \<open>case\<close> or \<open>default\<close> label it also emits
  \<open>note_fallthrough_insert_semi_fixit\<close> with a fix-it that inserts a semicolon; note
  and fix-it sit at the end of the last token of the source range handed to the handler.
\<close>

theorem fallthrough_wrong_target:
  assumes "getStmtClass St \<noteq> NullStmtClass"
  shows "handleFallThroughAttr S St A Rng =
     (None, S\<lparr>Diags := Diags S @
        \<lparr>DiagLoc = getBegin (getRange A), ID = err_fallthrough_attr_wrong_target,
          Args = [ArgLoc (getLocStart St)]\<rparr> #
        (if getStmtClass St = CaseStmtClass \<or> getStmtClass St = DefaultStmtClass
         then [\<lparr>DiagLoc = getLocForEndOfToken S (getEnd Rng),
                 ID = note_fallthrough_insert_semi_fixit,
                 Args = [ArgFixItInsertion (getLocForEndOfToken S (getEnd Rng)) '';'']\<rparr>]
         else [])\<rparr>)"
  using assms
  by (simp add: handleFallThroughAttr_def isa_NullStmt_def isa_SwitchCase_def Diag_def Let_def)

theorem fallthrough_wrong_target_witness:
  "getStmtClass (exStmt CaseStmtClass) \<noteq> NullStmtClass \<and>
   handleFallThroughAttr exSema (exStmt CaseStmtClass) exFallThrough exRange =
     (None, \<lparr>Diags =
        [\<lparr>DiagLoc = 12, ID = err_fallthrough_attr_wrong_target, Args = [ArgLoc 30]\<rparr>,
         \<lparr>DiagLoc = 21, ID = note_fallthrough_insert_semi_fixit,
           Args = [ArgFixItInsertion 21 '';'']\<rparr>],
        SwitchStack = [], getLocForEndOfToken = Suc\<rparr>)"
  using fallthrough_wrong_target [of "exStmt CaseStmtClass" exSema exFallThrough exRange]
  by (simp add: exStmt_def exSema_def exFallThrough_def exRange_def)

text \<open>
  C6. A loop hint on a statement that is no \<open>do\<close>, \<open>for\<close>, range-based \<open>for\<close> or
  \<open>while\<close> loop is rejected: the handler emits \<open>err_pragma_loop_precedes_nonloop\<close> at
  the start of the statement, with the spelling \<open>#pragma unroll\<close>, \<open>#pragma nounroll\<close> or
  \<open>#pragma clang loop\<close> chosen by the pragma name, and returns no attribute.
\<close>

theorem loop_hint_precedes_nonloop:
  assumes "getStmtClass St \<notin> {DoStmtClass, ForStmtClass, CXXForRangeStmtClass, WhileStmtClass}"
  shows "handleLoopHintAttr S St A Rng =
     Inr (None, S\<lparr>Diags := Diags S @
        [\<lparr>DiagLoc = getLocStart St, ID = err_pragma_loop_precedes_nonloop,
          Args = [ArgStr (if PragmaName A = ''unroll'' then ''#pragma unroll''
                          else if PragmaName A = ''nounroll'' then ''#pragma nounroll''
                          else ''#pragma clang loop'')]\<rparr>]\<rparr>)"
  using assms
  by (simp add: handleLoopHintAttr_def Pragma_def Diag_def)

theorem loop_hint_precedes_nonloop_witness:
  "getStmtClass (exStmt IfStmtClass) \<notin>
     {DoStmtClass, ForStmtClass, CXXForRangeStmtClass, WhileStmtClass} \<and>
   handleLoopHintAttr exSema (exStmt IfStmtClass)
       (exLoopHint ''nounroll'' ''nounroll'' None None) exRange =
     Inr (None, \<lparr>Diags =
        [\<lparr>DiagLoc = 30, ID = err_pragma_loop_precedes_nonloop,
          Args = [ArgStr ''#pragma nounroll'']\<rparr>],
        SwitchStack = [], getLocForEndOfToken = Suc\<rparr>)"
  using loop_hint_precedes_nonloop
          [of "exStmt IfStmtClass" exSema "exLoopHint ''nounroll'' ''nounroll'' None None" exRange]
  by (simp add: exStmt_def exSema_def exLoopHint_def)

section \<open>Properties of the loop hint decoder\<close>

text \<open>
  C7. On a loop, \<open>#pragma unroll\<close> without a value token decodes, with no diagnostic,
  to the hint with spelling \<open>Pragma_unroll\<close>, option \<open>Unroll\<close> and value 1.
\<close>

theorem plain_unroll:
  assumes "getStmtClass St \<in> {DoStmtClass, ForStmtClass, CXXForRangeStmtClass, WhileStmtClass}"
    and "PragmaName A = ''unroll''" and "ValueLoc A = None"
  shows "handleLoopHintAttr S St A Rng =
     Inr (Some (LoopHint \<lparr>getSpelling = Pragma_unroll, getOption = Unroll, getValue = 1,
                           getHintRange = getRange A\<rparr>), S)"
  using assms
  by (auto simp add: handleLoopHintAttr_def OptionAndSpelling_def CreateImplicit_def)

theorem plain_unroll_witness:
  "getStmtClass (exStmt ForStmtClass) \<in>
     {DoStmtClass, ForStmtClass, CXXForRangeStmtClass, WhileStmtClass} \<and>
   PragmaName (exLoopHint ''unroll'' ''unroll'' None None) = ''unroll'' \<and>
   ValueLoc (exLoopHint ''unroll'' ''unroll'' None None) = None \<and>
   handleLoopHintAttr exSema (exStmt ForStmtClass)
       (exLoopHint ''unroll'' ''unroll'' None None) exRange =
     Inr (Some (LoopHint \<lparr>getSpelling = Pragma_unroll, getOption = Unroll, getValue = 1,
                           getHintRange = \<lparr>getBegin = 10, getEnd = 20\<rparr>\<rparr>), exSema)"
  using plain_unroll
          [of "exStmt ForStmtClass" "exLoopHint ''unroll'' ''unroll'' None None" exSema exRange]
  by (simp add: exStmt_def exLoopHint_def exRange_def)

text \<open>
  C8. On a loop, \<open>#pragma nounroll\<close> decodes, with no diagnostic, to the hint with
  spelling \<open>Pragma_nounroll\<close>, option \<open>Unroll\<close> and value 0, whatever value token and
  value expression come with it.
\<close>

theorem plain_nounroll:
  assumes "getStmtClass St \<in> {DoStmtClass, ForStmtClass, CXXForRangeStmtClass, WhileStmtClass}"
    and "PragmaName A = ''nounroll''"
  shows "handleLoopHintAttr S St A Rng =
     Inr (Some (LoopHint \<lparr>getSpelling = Pragma_nounroll, getOption = Unroll, getValue = 0,
                           getHintRange = getRange A\<rparr>), S)"
  using assms
  by (auto simp add: handleLoopHintAttr_def OptionAndSpelling_def CreateImplicit_def)

theorem plain_nounroll_witness:
  "getStmtClass (exStmt WhileStmtClass) \<in>
     {DoStmtClass, ForStmtClass, CXXForRangeStmtClass, WhileStmtClass} \<and>
   PragmaName (exLoopHint ''nounroll'' ''nounroll'' (exToken (Some ''enable'')) (exConstant 4))
     = ''nounroll'' \<and>
   handleLoopHintAttr exSema (exStmt WhileStmtClass)
       (exLoopHint ''nounroll'' ''nounroll'' (exToken (Some ''enable'')) (exConstant 4)) exRange =
     Inr (Some (LoopHint \<lparr>getSpelling = Pragma_nounroll, getOption = Unroll, getValue = 0,
                           getHintRange = \<lparr>getBegin = 10, getEnd = 20\<rparr>\<rparr>), exSema)"
  using plain_nounroll
          [of "exStmt WhileStmtClass"
              "exLoopHint ''nounroll'' ''nounroll'' (exToken (Some ''enable'')) (exConstant 4)"
              exSema exRange]
  by (simp add: exStmt_def exLoopHint_def exRange_def)

text \<open>
  C9. For \<open>#pragma clang loop\<close> (a pragma name other than \<open>unroll\<close> and \<open>nounroll\<close>) the
  option is looked up by exact match of the option name among \<open>vectorize\<close>,
  \<open>vectorize_width\<close>, \<open>interleave\<close>, \<open>interleave_count\<close>, \<open>unroll\<close> and \<open>unroll_count\<close>,
  and any other name selects \<open>Vectorize\<close>: every hint the decoder builds carries that
  option, and a hint with an unknown option name and the keyword \<open>enable\<close> is accepted
  as \<open>Vectorize\<close> with value 1.
\<close>

theorem option_name_lookup:
  assumes "PragmaName A \<noteq> ''unroll''" and "PragmaName A \<noteq> ''nounroll''"
  shows "OptionAndSpelling A =
       (case map_of OptionTable (OptionName A) of Some Opt \<Rightarrow> Opt | None \<Rightarrow> Vectorize,
        Pragma_clang_loop) \<and>
     (handleLoopHintAttr S St A Rng = Inr (Some (LoopHint LH), S') \<longrightarrow>
        getOption LH =
          (case map_of OptionTable (OptionName A) of Some Opt \<Rightarrow> Opt | None \<Rightarrow> Vectorize) \<and>
        getSpelling LH = Pragma_clang_loop) \<and>
     (OptionName A \<notin> fst ` set OptionTable \<and>
      getStmtClass St \<in> {DoStmtClass, ForStmtClass, CXXForRangeStmtClass, WhileStmtClass} \<and>
      ValueLoc A = Some VL \<and> Ident VL = Some ''enable'' \<longrightarrow>
        handleLoopHintAttr S St A Rng =
          Inr (Some (LoopHint \<lparr>getSpelling = Pragma_clang_loop, getOption = Vectorize,
                                getValue = 1, getHintRange = getRange A\<rparr>), S))"
proof (intro conjI impI)
  show os: "OptionAndSpelling A =
       (case map_of OptionTable (OptionName A) of Some Opt \<Rightarrow> Opt | None \<Rightarrow> Vectorize,
        Pragma_clang_loop)"
    using assms by (simp add: OptionAndSpelling_def OptionSwitch_table)
  {
    assume "handleLoopHintAttr S St A Rng = Inr (Some (LoopHint LH), S')"
    then have eq: "(getOption LH, getSpelling LH) = OptionAndSpelling A"
      by (rule handleLoopHintAttr_option)
    from eq os show "getOption LH =
        (case map_of OptionTable (OptionName A) of Some Opt \<Rightarrow> Opt | None \<Rightarrow> Vectorize)"
      by simp
    from eq os show "getSpelling LH = Pragma_clang_loop"
      by simp
  }
  {
    assume h: "OptionName A \<notin> fst ` set OptionTable \<and>
      getStmtClass St \<in> {DoStmtClass, ForStmtClass, CXXForRangeStmtClass, WhileStmtClass} \<and>
      ValueLoc A = Some VL \<and> Ident VL = Some ''enable''"
    then have "map_of OptionTable (OptionName A) = None"
      by (simp add: map_of_eq_None_iff)
    then have sw: "OptionSwitch (OptionName A) = Vectorize"
      by (simp add: OptionSwitch_table)
    show "handleLoopHintAttr S St A Rng =
          Inr (Some (LoopHint \<lparr>getSpelling = Pragma_clang_loop, getOption = Vectorize,
                                getValue = 1, getHintRange = getRange A\<rparr>), S)"
      using enable_form_result [OF _ assms sw, of St VL S Rng] h by simp
  }
qed

theorem option_name_lookup_witness:
  "PragmaName (exLoopHint ''loop'' ''distribute'' (exToken (Some ''enable'')) None) \<noteq> ''unroll'' \<and>
   PragmaName (exLoopHint ''loop'' ''distribute'' (exToken (Some ''enable'')) None) \<noteq> ''nounroll'' \<and>
   ''distribute'' \<notin> fst ` set OptionTable \<and>
   OptionAndSpelling (exLoopHint ''loop'' ''distribute'' (exToken (Some ''enable'')) None) =
     (Vectorize, Pragma_clang_loop) \<and>
   handleLoopHintAttr exSema (exStmt ForStmtClass)
       (exLoopHint ''loop'' ''distribute'' (exToken (Some ''enable'')) None) exRange =
     Inr (Some (LoopHint \<lparr>getSpelling = Pragma_clang_loop, getOption = Vectorize, getValue = 1,
                           getHintRange = \<lparr>getBegin = 10, getEnd = 20\<rparr>\<rparr>), exSema) \<and>
   PragmaName (exLoopHint ''loop'' ''unroll_count'' (exToken None) (exConstant 4)) \<noteq> ''unroll'' \<and>
   PragmaName (exLoopHint ''loop'' ''unroll_count'' (exToken None) (exConstant 4)) \<noteq> ''nounroll'' \<and>
   OptionAndSpelling (exLoopHint ''loop'' ''unroll_count'' (exToken None) (exConstant 4)) =
     (UnrollCount, Pragma_clang_loop)"
  using option_name_lookup
          [of "exLoopHint ''loop'' ''distribute'' (exToken (Some ''enable'')) None"
              exSema "exStmt ForStmtClass" exRange _ _ "\<lparr>Loc = 15, Ident = Some ''enable''\<rparr>"]
        option_name_lookup
          [of "exLoopHint ''loop'' ''unroll_count'' (exToken None) (exConstant 4)"]
  by (simp add: exLoopHint_def exToken_def exStmt_def exRange_def OptionTable_def)

text \<open>
  C3. A hint of \<open>#pragma clang loop\<close> carries a value token; its keyword is missing
  when the token is no identifier. For a boolean option (\<open>Vectorize\<close>, \<open>Interleave\<close>,
  \<open>Unroll\<close>) of \<open>#pragma clang loop\<close> on a loop: the identifier \<open>disable\<close> gives
  value 0; the true keyword (\<open>full\<close> for \<open>Unroll\<close>, \<open>enable\<close> for the other two)
  gives value 1; any other identifier, and a token that is no identifier, gives
  \<open>err_pragma_loop_invalid_keyword\<close> at the token, naming the true keyword, and no
  attribute. In that last case the attributes built for the statement are those built
  without the hint: the later attributes are decoded as before.
\<close>

theorem enable_form_keyword:
  assumes "getStmtClass St \<in> {DoStmtClass, ForStmtClass, CXXForRangeStmtClass, WhileStmtClass}"
    and "PragmaName A \<noteq> ''unroll''" and "PragmaName A \<noteq> ''nounroll''"
    and "OptionSwitch (OptionName A) = Opt" and "Opt \<in> {Vectorize, Interleave, Unroll}"
    and "ValueLoc A = Some VL"
  shows "handleLoopHintAttr S St A Rng =
       (if Ident VL = Some ''disable'' then
          Inr (Some (LoopHint \<lparr>getSpelling = Pragma_clang_loop, getOption = Opt, getValue = 0,
                                getHintRange = getRange A\<rparr>), S)
        else if Ident VL = Some (if Opt = Unroll then ''full'' else ''enable'') then
          Inr (Some (LoopHint \<lparr>getSpelling = Pragma_clang_loop, getOption = Opt, getValue = 1,
                                getHintRange = getRange A\<rparr>), S)
        else
          Inr (None, S\<lparr>Diags := Diags S @
                 [\<lparr>DiagLoc = Loc VL, ID = err_pragma_loop_invalid_keyword,
                   Args = [ArgStr (if Opt = Unroll then ''full'' else ''enable'')]\<rparr>]\<rparr>)) \<and>
     (getKind A = AT_LoopHint \<and> Ident VL \<noteq> Some ''disable'' \<and>
      Ident VL \<noteq> Some (if Opt = Unroll then ''full'' else ''enable'') \<longrightarrow>
        AttrsOf (ProcessLoop S St Rng Attrs (A # ls)) = AttrsOf (ProcessLoop S St Rng Attrs ls))"
proof (intro conjI impI)
  show res: "handleLoopHintAttr S St A Rng =
       (if Ident VL = Some ''disable'' then
          Inr (Some (LoopHint \<lparr>getSpelling = Pragma_clang_loop, getOption = Opt, getValue = 0,
                                getHintRange = getRange A\<rparr>), S)
        else if Ident VL = Some (if Opt = Unroll then ''full'' else ''enable'') then
          Inr (Some (LoopHint \<lparr>getSpelling = Pragma_clang_loop, getOption = Opt, getValue = 1,
                                getHintRange = getRange A\<rparr>), S)
        else
          Inr (None, S\<lparr>Diags := Diags S @
                 [\<lparr>DiagLoc = Loc VL, ID = err_pragma_loop_invalid_keyword,
                   Args = [ArgStr (if Opt = Unroll then ''full'' else ''enable'')]\<rparr>]\<rparr>))"
    using assms by (rule enable_form_result)
  assume bad: "getKind A = AT_LoopHint \<and> Ident VL \<noteq> Some ''disable'' \<and>
      Ident VL \<noteq> Some (if Opt = Unroll then ''full'' else ''enable'')"
  define S1 where "S1 = S\<lparr>Diags := Diags S @
                 [\<lparr>DiagLoc = Loc VL, ID = err_pragma_loop_invalid_keyword,
                   Args = [ArgStr (if Opt = Unroll then ''full'' else ''enable'')]\<rparr>]\<rparr>"
  from bad res have "ProcessStmtAttribute S St A Rng = Inr (None, S1)"
    by (simp add: ProcessStmtAttribute_def S1_def)
  then have step: "ProcessLoop S St Rng Attrs (A # ls) = ProcessLoop S1 St Rng Attrs ls"
    by simp
  have "SwitchStack S1 = SwitchStack S"
    by (simp add: S1_def)
  then have "AttrsOf (ProcessLoop S1 St Rng Attrs ls) = AttrsOf (ProcessLoop S St Rng Attrs ls)"
    by (rule ProcessLoop_indep)
  with step show "AttrsOf (ProcessLoop S St Rng Attrs (A # ls)) =
      AttrsOf (ProcessLoop S St Rng Attrs ls)"
    by (simp only:)
qed

theorem enable_form_keyword_witness:
  "getStmtClass (exStmt ForStmtClass) \<in>
     {DoStmtClass, ForStmtClass, CXXForRangeStmtClass, WhileStmtClass} \<and>
   PragmaName (exLoopHint ''loop'' ''unroll'' (exToken (Some ''enable'')) None) \<noteq> ''unroll'' \<and>
   PragmaName (exLoopHint ''loop'' ''unroll'' (exToken (Some ''enable'')) None) \<noteq> ''nounroll'' \<and>
   OptionSwitch ''unroll'' = Unroll \<and>
   handleLoopHintAttr exSema (exStmt ForStmtClass)
       (exLoopHint ''loop'' ''unroll'' (exToken (Some ''enable'')) None) exRange =
     Inr (None, \<lparr>Diags =
        [\<lparr>DiagLoc = 15, ID = err_pragma_loop_invalid_keyword, Args = [ArgStr ''full'']\<rparr>],
        SwitchStack = [], getLocForEndOfToken = Suc\<rparr>) \<and>
   AttrsOf (ProcessLoop exSema (exStmt ForStmtClass) exRange []
       [exLoopHint ''loop'' ''unroll'' (exToken (Some ''enable'')) None,
        exLoopHint ''nounroll'' ''nounroll'' None None]) =
     AttrsOf (ProcessLoop exSema (exStmt ForStmtClass) exRange []
       [exLoopHint ''nounroll'' ''nounroll'' None None]) \<and>
   OptionSwitch ''vectorize'' = Vectorize \<and>
   handleLoopHintAttr exSema (exStmt ForStmtClass)
       (exLoopHint ''loop'' ''vectorize'' (exToken None) (exConstant 4)) exRange =
     Inr (None, \<lparr>Diags =
        [\<lparr>DiagLoc = 15, ID = err_pragma_loop_invalid_keyword, Args = [ArgStr ''enable'']\<rparr>],
        SwitchStack = [], getLocForEndOfToken = Suc\<rparr>) \<and>
   handleLoopHintAttr exSema (exStmt ForStmtClass)
       (exLoopHint ''loop'' ''vectorize'' (exToken (Some ''disable'')) None) exRange =
     Inr (Some (LoopHint \<lparr>getSpelling = Pragma_clang_loop, getOption = Vectorize, getValue = 0,
                           getHintRange = \<lparr>getBegin = 10, getEnd = 20\<rparr>\<rparr>), exSema) \<and>
   handleLoopHintAttr exSema (exStmt ForStmtClass)
       (exLoopHint ''loop'' ''unroll'' (exToken (Some ''full'')) None) exRange =
     Inr (Some (LoopHint \<lparr>getSpelling = Pragma_clang_loop, getOption = Unroll, getValue = 1,
                           getHintRange = \<lparr>getBegin = 10, getEnd = 20\<rparr>\<rparr>), exSema)"
  using enable_form_keyword
          [of "exStmt ForStmtClass"
              "exLoopHint ''loop'' ''unroll'' (exToken (Some ''enable'')) None"
              Unroll "\<lparr>Loc = 15, Ident = Some ''enable''\<rparr>" exSema exRange "[]"
              "[exLoopHint ''nounroll'' ''nounroll'' None None]"]
        enable_form_keyword
          [of "exStmt ForStmtClass"
              "exLoopHint ''loop'' ''vectorize'' (exToken None) (exConstant 4)"
              Vectorize "\<lparr>Loc = 15, Ident = None\<rparr>" exSema exRange]
        enable_form_keyword
          [of "exStmt ForStmtClass"
              "exLoopHint ''loop'' ''vectorize'' (exToken (Some ''disable'')) None"
              Vectorize "\<lparr>Loc = 15, Ident = Some ''disable''\<rparr>" exSema exRange]
        enable_form_keyword
          [of "exStmt ForStmtClass"
              "exLoopHint ''loop'' ''unroll'' (exToken (Some ''full'')) None"
              Unroll "\<lparr>Loc = 15, Ident = Some ''full''\<rparr>" exSema exRange]
  by (simp add: exLoopHint_def exToken_def exConstant_def exStmt_def exSema_def exRange_def
        OptionSwitch_def)

text \<open>
  C4, as stated, at three hints. The claim accepts a constant exactly when its value
  is at least 1, and has every other hint end in \<open>err_pragma_loop_invalid_value\<close>. The
  handler compares after narrowing to \<open>int\<close>: the constant \<open>2^32\<close> is at least 1 and
  is rejected, and the constant \<open>1 - 2^32\<close> is below 1 and is accepted, with stored
  value 1. It reads the location of the diagnostic through \<open>ValueLoc\<close>: for
  \<open>vectorize_width\<close> with neither value token nor value expression the call ends in
  the read of the null pointer, with no diagnostic.
\<close>

theorem numeric_value_iff_counterexample:
  "1 \<le> sint (2 ^ 32 :: 64 word) \<and>
   handleLoopHintAttr exSema (exStmt ForStmtClass)
       (exLoopHint ''loop'' ''vectorize_width'' (exToken None) (exConstant (2 ^ 32))) exRange =
     Inr (None, \<lparr>Diags =
        [\<lparr>DiagLoc = 15, ID = err_pragma_loop_invalid_value, Args = []\<rparr>],
        SwitchStack = [], getLocForEndOfToken = Suc\<rparr>) \<and>
   sint (1 - 2 ^ 32 :: 64 word) < 1 \<and>
   handleLoopHintAttr exSema (exStmt ForStmtClass)
       (exLoopHint ''loop'' ''vectorize_width'' (exToken None) (exConstant (1 - 2 ^ 32))) exRange =
     Inr (Some (LoopHint \<lparr>getSpelling = Pragma_clang_loop, getOption = VectorizeWidth,
                           getValue = 1, getHintRange = \<lparr>getBegin = 10, getEnd = 20\<rparr>\<rparr>), exSema) \<and>
   handleLoopHintAttr exSema (exStmt ForStmtClass)
       (exLoopHint ''loop'' ''vectorize_width'' None None) exRange = Inl NullDereference"
  by (simp add: handleLoopHintAttr_def exStmt_def exLoopHint_def exToken_def exConstant_def
        exSema_def exRange_def OptionAndSpelling_def OptionSwitch_def DiagAtValueLoc_def
        Diag_def CreateImplicit_def)

text \<open>
  C4, amended. For a numeric option (\<open>VectorizeWidth\<close>, \<open>InterleaveCount\<close>,
  \<open>UnrollCount\<close>) of \<open>#pragma clang loop\<close> on a loop, with a value token present: a
  missing value expression and a value expression that is no integer constant
  expression give \<open>err_pragma_loop_invalid_value\<close> at the token and no attribute; a
  constant whose sign-extended value \<open>v\<close> fits the 32-bit \<open>int\<close>
  (\<open>-2^31 \<le> v < 2^31\<close>) is accepted exactly when \<open>1 \<le> v\<close>, with stored value \<open>v\<close>,
  and gives the same diagnostic otherwise.
\<close>

theorem numeric_form_value:
  assumes "getStmtClass St \<in> {DoStmtClass, ForStmtClass, CXXForRangeStmtClass, WhileStmtClass}"
    and "PragmaName A \<noteq> ''unroll''" and "PragmaName A \<noteq> ''nounroll''"
    and "OptionSwitch (OptionName A) = Opt"
    and "Opt \<in> {VectorizeWidth, InterleaveCount, UnrollCount}"
    and "ValueLoc A = Some VL"
  shows "(ValueExpr A = None \<or> (ValueExpr A = Some E \<and> isIntegerConstantExpr E = None) \<longrightarrow>
        handleLoopHintAttr S St A Rng =
          Inr (None, S\<lparr>Diags := Diags S @
                 [\<lparr>DiagLoc = Loc VL, ID = err_pragma_loop_invalid_value, Args = []\<rparr>]\<rparr>)) \<and>
     (ValueExpr A = Some E \<and> isIntegerConstantExpr E = Some V \<and>
      - (2 ^ 31) \<le> sint (getSExtValue V) \<and> sint (getSExtValue V) < 2 ^ 31 \<longrightarrow>
        handleLoopHintAttr S St A Rng =
          (if 1 \<le> sint (getSExtValue V) then
             Inr (Some (LoopHint \<lparr>getSpelling = Pragma_clang_loop, getOption = Opt,
                                   getValue = word_of_int (sint (getSExtValue V)),
                                   getHintRange = getRange A\<rparr>), S)
           else
             Inr (None, S\<lparr>Diags := Diags S @
                    [\<lparr>DiagLoc = Loc VL, ID = err_pragma_loop_invalid_value, Args = []\<rparr>]\<rparr>)))"
proof (intro conjI impI)
  note res = numeric_form_result [OF assms(1-5), of S Rng]
  have inv: "InvalidValue S A =
      Inr (None, S\<lparr>Diags := Diags S @
             [\<lparr>DiagLoc = Loc VL, ID = err_pragma_loop_invalid_value, Args = []\<rparr>]\<rparr>)"
    using assms(6) by (simp add: InvalidValue_def)
  {
    assume "ValueExpr A = None \<or> (ValueExpr A = Some E \<and> isIntegerConstantExpr E = None)"
    then have "handleLoopHintAttr S St A Rng = InvalidValue S A"
      using res by (elim disjE conjE) simp_all
    then show "handleLoopHintAttr S St A Rng =
          Inr (None, S\<lparr>Diags := Diags S @
                 [\<lparr>DiagLoc = Loc VL, ID = err_pragma_loop_invalid_value, Args = []\<rparr>]\<rparr>)"
      by (simp only: inv)
  }
  {
    assume c: "ValueExpr A = Some E \<and> isIntegerConstantExpr E = Some V \<and>
      - (2 ^ 31) \<le> sint (getSExtValue V) \<and> sint (getSExtValue V) < 2 ^ 31"
    then have eq: "sint (ucast (getSExtValue V) :: 32 word) = sint (getSExtValue V)"
      by (intro sint_ucast_in_range) simp_all
    have w: "(ucast (getSExtValue V) :: 32 word) = word_of_int (sint (getSExtValue V))"
      by (simp only: ucast_int64_int scast_eq)
    from c have ve: "ValueExpr A = Some E" and ic: "isIntegerConstantExpr E = Some V"
      by simp_all
    have "handleLoopHintAttr S St A Rng =
        (if 1 \<le> sint (ucast (getSExtValue V) :: 32 word) then
           Inr (Some (LoopHint \<lparr>getSpelling = Pragma_clang_loop, getOption = Opt,
                                 getValue = ucast (getSExtValue V),
                                 getHintRange = getRange A\<rparr>), S)
         else InvalidValue S A)"
      using res by (simp add: ve ic)
    then have "handleLoopHintAttr S St A Rng =
        (if 1 \<le> sint (getSExtValue V) then
           Inr (Some (LoopHint \<lparr>getSpelling = Pragma_clang_loop, getOption = Opt,
                                 getValue = ucast (getSExtValue V),
                                 getHintRange = getRange A\<rparr>), S)
         else InvalidValue S A)"
      by (simp only: eq)
    then show "handleLoopHintAttr S St A Rng =
          (if 1 \<le> sint (getSExtValue V) then
             Inr (Some (LoopHint \<lparr>getSpelling = Pragma_clang_loop, getOption = Opt,
                                   getValue = word_of_int (sint (getSExtValue V)),
                                   getHintRange = getRange A\<rparr>), S)
           else
             Inr (None, S\<lparr>Diags := Diags S @
                    [\<lparr>DiagLoc = Loc VL, ID = err_pragma_loop_invalid_value, Args = []\<rparr>]\<rparr>))"
      by (simp only: w inv)
  }
qed

theorem numeric_form_value_witness:
  "getStmtClass (exStmt ForStmtClass) \<in>
     {DoStmtClass, ForStmtClass, CXXForRangeStmtClass, WhileStmtClass} \<and>
   PragmaName (exLoopHint ''loop'' ''interleave_count'' (exToken None) (exConstant 8))
     \<noteq> ''unroll'' \<and>
   PragmaName (exLoopHint ''loop'' ''interleave_count'' (exToken None) (exConstant 8))
     \<noteq> ''nounroll'' \<and>
   OptionSwitch ''interleave_count'' = InterleaveCount \<and>
   - (2 ^ 31) \<le> sint (8 :: 64 word) \<and> sint (8 :: 64 word) < 2 ^ 31 \<and>
   handleLoopHintAttr exSema (exStmt ForStmtClass)
       (exLoopHint ''loop'' ''interleave_count'' (exToken None) (exConstant 8)) exRange =
     Inr (Some (LoopHint \<lparr>getSpelling = Pragma_clang_loop, getOption = InterleaveCount,
                           getValue = 8, getHintRange = \<lparr>getBegin = 10, getEnd = 20\<rparr>\<rparr>), exSema) \<and>
   ValueExpr (exLoopHint ''loop'' ''interleave_count'' (exToken (Some ''enable'')) None) = None \<and>
   handleLoopHintAttr exSema (exStmt ForStmtClass)
       (exLoopHint ''loop'' ''interleave_count'' (exToken (Some ''enable'')) None) exRange =
     Inr (None, \<lparr>Diags =
        [\<lparr>DiagLoc = 15, ID = err_pragma_loop_invalid_value, Args = []\<rparr>],
        SwitchStack = [], getLocForEndOfToken = Suc\<rparr>)"
  using numeric_form_value
          [of "exStmt ForStmtClass"
              "exLoopHint ''loop'' ''interleave_count'' (exToken None) (exConstant 8)"
              InterleaveCount "\<lparr>Loc = 15, Ident = None\<rparr>" "Expr (Some (APSInt 8))"
              exSema exRange "APSInt 8"]
        numeric_form_value
          [of "exStmt ForStmtClass"
              "exLoopHint ''loop'' ''interleave_count'' (exToken (Some ''enable'')) None"
              InterleaveCount "\<lparr>Loc = 15, Ident = Some ''enable''\<rparr>" _ exSema exRange]
  by (simp add: exLoopHint_def exToken_def exConstant_def exStmt_def exRange_def exSema_def
        OptionSwitch_def)

text \<open>
  C10. For a numeric option of \<open>#pragma clang loop\<close> with a constant value expression,
  the value compared with 1 and stored in the hint is the \<open>int64_t\<close> returned by
  \<open>getSExtValue\<close>, narrowed to the 32-bit \<open>int\<close>: the hint is built exactly when the
  narrowed value is at least 1 and carries the narrowed value. When the sign-extended
  value \<open>v\<close> satisfies \<open>1 \<le> v < 2^31\<close> the stored value is \<open>v\<close>; the constant
  \<open>2^32 + 1\<close> is accepted with stored value 1.
\<close>

theorem numeric_value_truncated:
  assumes "getStmtClass St \<in> {DoStmtClass, ForStmtClass, CXXForRangeStmtClass, WhileStmtClass}"
    and "PragmaName A \<noteq> ''unroll''" and "PragmaName A \<noteq> ''nounroll''"
    and "OptionSwitch (OptionName A) = Opt"
    and "Opt \<in> {VectorizeWidth, InterleaveCount, UnrollCount}"
    and "ValueExpr A = Some E" and "isIntegerConstantExpr E = Some V"
  shows "handleLoopHintAttr S St A Rng =
       (if 1 \<le> sint (ucast (getSExtValue V) :: 32 word) then
          Inr (Some (LoopHint \<lparr>getSpelling = Pragma_clang_loop, getOption = Opt,
                                getValue = ucast (getSExtValue V),
                                getHintRange = getRange A\<rparr>), S)
        else InvalidValue S A) \<and>
     (1 \<le> sint (getSExtValue V) \<and> sint (getSExtValue V) < 2 ^ 31 \<longrightarrow>
        handleLoopHintAttr S St A Rng =
          Inr (Some (LoopHint \<lparr>getSpelling = Pragma_clang_loop, getOption = Opt,
                                getValue = ucast (getSExtValue V),
                                getHintRange = getRange A\<rparr>), S) \<and>
        sint (ucast (getSExtValue V) :: 32 word) = sint (getSExtValue V)) \<and>
     (getSExtValue V = 2 ^ 32 + 1 \<longrightarrow>
        handleLoopHintAttr S St A Rng =
          Inr (Some (LoopHint \<lparr>getSpelling = Pragma_clang_loop, getOption = Opt,
                                getValue = 1, getHintRange = getRange A\<rparr>), S))"
proof (intro conjI impI)
  show res: "handleLoopHintAttr S St A Rng =
       (if 1 \<le> sint (ucast (getSExtValue V) :: 32 word) then
          Inr (Some (LoopHint \<lparr>getSpelling = Pragma_clang_loop, getOption = Opt,
                                getValue = ucast (getSExtValue V),
                                getHintRange = getRange A\<rparr>), S)
        else InvalidValue S A)"
    using numeric_form_result [OF assms(1-5), of S Rng] assms(6,7) by simp
  {
    assume r: "1 \<le> sint (getSExtValue V) \<and> sint (getSExtValue V) < 2 ^ 31"
    then show eq: "sint (ucast (getSExtValue V) :: 32 word) = sint (getSExtValue V)"
      by (intro sint_ucast_in_range) simp_all
    from r eq res show "handleLoopHintAttr S St A Rng =
          Inr (Some (LoopHint \<lparr>getSpelling = Pragma_clang_loop, getOption = Opt,
                                getValue = ucast (getSExtValue V),
                                getHintRange = getRange A\<rparr>), S)"
      by simp
  }
  {
    assume "getSExtValue V = 2 ^ 32 + 1"
    with res show "handleLoopHintAttr S St A Rng =
          Inr (Some (LoopHint \<lparr>getSpelling = Pragma_clang_loop, getOption = Opt,
                                getValue = 1, getHintRange = getRange A\<rparr>), S)"
      by simp
  }
qed

theorem numeric_value_truncated_witness:
  "getStmtClass (exStmt ForStmtClass) \<in>
     {DoStmtClass, ForStmtClass, CXXForRangeStmtClass, WhileStmtClass} \<and>
   PragmaName (exLoopHint ''loop'' ''vectorize_width'' (exToken None) (exConstant (2 ^ 32 + 1)))
     \<noteq> ''unroll'' \<and>
   PragmaName (exLoopHint ''loop'' ''vectorize_width'' (exToken None) (exConstant (2 ^ 32 + 1)))
     \<noteq> ''nounroll'' \<and>
   OptionSwitch ''vectorize_width'' = VectorizeWidth \<and>
   handleLoopHintAttr exSema (exStmt ForStmtClass)
       (exLoopHint ''loop'' ''vectorize_width'' (exToken None) (exConstant (2 ^ 32 + 1))) exRange =
     Inr (Some (LoopHint \<lparr>getSpelling = Pragma_clang_loop, getOption = VectorizeWidth,
                           getValue = 1, getHintRange = \<lparr>getBegin = 10, getEnd = 20\<rparr>\<rparr>), exSema) \<and>
   1 \<le> sint (8 :: 64 word) \<and> sint (8 :: 64 word) < 2 ^ 31 \<and>
   handleLoopHintAttr exSema (exStmt ForStmtClass)
       (exLoopHint ''loop'' ''vectorize_width'' (exToken None) (exConstant 8)) exRange =
     Inr (Some (LoopHint \<lparr>getSpelling = Pragma_clang_loop, getOption = VectorizeWidth,
                           getValue = 8, getHintRange = \<lparr>getBegin = 10, getEnd = 20\<rparr>\<rparr>), exSema)"
  using numeric_value_truncated
          [of "exStmt ForStmtClass"
              "exLoopHint ''loop'' ''vectorize_width'' (exToken None) (exConstant (2 ^ 32 + 1))"
              VectorizeWidth "Expr (Some (APSInt (2 ^ 32 + 1)))" "APSInt (2 ^ 32 + 1)"
              exSema exRange]
        numeric_value_truncated
          [of "exStmt ForStmtClass"
              "exLoopHint ''loop'' ''vectorize_width'' (exToken None) (exConstant 8)"
              VectorizeWidth "Expr (Some (APSInt 8))" "APSInt 8" exSema exRange]
  by (simp add: exLoopHint_def exToken_def exConstant_def exStmt_def exRange_def OptionSwitch_def)

section \<open>Properties of the compatibility checker\<close>

text \<open>
  C1. When the checker has processed the attributes \<open>pre\<close> and then processes the loop
  hint \<open>LH\<close>, the round for \<open>LH\<close> emits an incompatibility diagnostic exactly when,
  after \<open>LH\<close> is stored, both slots of the category of \<open>LH\<close> are in use and the category
  is \<open>Unroll\<close> or the stored boolean hint has value 0; the diagnostic sits at \<open>LH\<close> and
  names the stored boolean and numeric hints. The slots hold the last boolean and the
  last numeric hint of the category met so far. In particular a \<open>vectorize\<close> hint with a
  nonzero value followed by \<open>vectorize_width\<close> gives no diagnostic at all, while
  \<open>vectorize(disable)\<close> followed by \<open>vectorize_width\<close>, and \<open>unroll\<close> with any value
  followed by \<open>unroll_count\<close>, each give exactly one incompatibility diagnostic.
\<close>

theorem incompatible_hint_emitted:
  "filter isIncompatibleHint
     (newDiags (CheckForIncompatibleAttributes S pre)
               (CheckForIncompatibleAttributes S (pre @ [LoopHint LH]))) =
     (case EnableAttr (snd (CheckLoop (S, NoHints) (pre @ [LoopHint LH])) (CategoryOfHint LH)) of
        None \<Rightarrow> []
      | Some E \<Rightarrow>
          (case NumericAttr (snd (CheckLoop (S, NoHints) (pre @ [LoopHint LH]))
                               (CategoryOfHint LH)) of
             None \<Rightarrow> []
           | Some N \<Rightarrow>
               if CategoryOfHint LH = CatUnroll \<or> getValue E = 0
               then [\<lparr>DiagLoc = getBegin (getHintRange LH), ID = err_pragma_loop_compatibility,
                      Args = [ArgBool False, ArgDiagnosticName E, ArgDiagnosticName N]\<rparr>]
               else [])) \<and>
   EnableAttr (snd (CheckLoop (S, NoHints) Attrs) c) =
     lastHint (\<lambda>h. isEnableForm h \<and> CategoryOfHint h = c) (hintsOf Attrs) \<and>
   NumericAttr (snd (CheckLoop (S, NoHints) Attrs) c) =
     lastHint (\<lambda>h. \<not> isEnableForm h \<and> CategoryOfHint h = c) (hintsOf Attrs) \<and>
   (getOption B = Vectorize \<and> getValue B \<noteq> 0 \<and> getOption W = VectorizeWidth \<longrightarrow>
      newDiags S (CheckForIncompatibleAttributes S [LoopHint B, LoopHint W]) = []) \<and>
   (getOption B = Vectorize \<and> getValue B = 0 \<and> getOption W = VectorizeWidth \<longrightarrow>
      newDiags S (CheckForIncompatibleAttributes S [LoopHint B, LoopHint W]) =
        [\<lparr>DiagLoc = getBegin (getHintRange W), ID = err_pragma_loop_compatibility,
          Args = [ArgBool False, ArgDiagnosticName B, ArgDiagnosticName W]\<rparr>]) \<and>
   (getOption B = Unroll \<and> getOption W = UnrollCount \<longrightarrow>
      newDiags S (CheckForIncompatibleAttributes S [LoopHint B, LoopHint W]) =
        [\<lparr>DiagLoc = getBegin (getHintRange W), ID = err_pragma_loop_compatibility,
          Args = [ArgBool False, ArgDiagnosticName B, ArgDiagnosticName W]\<rparr>])"
proof (intro conjI impI)
  have eq: "snd (CheckLoop (S, NoHints) (pre @ [LoopHint LH])) =
          StoreHint (foldl StoreHint NoHints (hintsOf pre)) LH"
    by (simp add: CheckLoop_eq hintsOf_append hintsOf_LoopHint)
  show "filter isIncompatibleHint
     (newDiags (CheckForIncompatibleAttributes S pre)
               (CheckForIncompatibleAttributes S (pre @ [LoopHint LH]))) =
     (case EnableAttr (snd (CheckLoop (S, NoHints) (pre @ [LoopHint LH])) (CategoryOfHint LH)) of
        None \<Rightarrow> []
      | Some E \<Rightarrow>
          (case NumericAttr (snd (CheckLoop (S, NoHints) (pre @ [LoopHint LH]))
                               (CategoryOfHint LH)) of
             None \<Rightarrow> []
           | Some N \<Rightarrow>
               if CategoryOfHint LH = CatUnroll \<or> getValue E = 0
               then [\<lparr>DiagLoc = getBegin (getHintRange LH), ID = err_pragma_loop_compatibility,
                      Args = [ArgBool False, ArgDiagnosticName E, ArgDiagnosticName N]\<rparr>]
               else []))"
    unfolding step_newDiags filter_isIncompatibleHint_step eq
    unfolding IncompatibleDiags_def CompatibilityDiag_def
    by (rule refl)
  show "EnableAttr (snd (CheckLoop (S, NoHints) Attrs) c) =
     lastHint (\<lambda>h. isEnableForm h \<and> CategoryOfHint h = c) (hintsOf Attrs)"
    by (simp add: slots_after_CheckLoop)
  show "NumericAttr (snd (CheckLoop (S, NoHints) Attrs) c) =
     lastHint (\<lambda>h. \<not> isEnableForm h \<and> CategoryOfHint h = c) (hintsOf Attrs)"
    by (simp add: slots_after_CheckLoop)
  {
    assume "getOption B = Vectorize \<and> getValue B \<noteq> 0 \<and> getOption W = VectorizeWidth"
    then show "newDiags S (CheckForIncompatibleAttributes S [LoopHint B, LoopHint W]) = []"
      by (simp add: newDiags_Check hintsOf_def DuplicateDiags_def IncompatibleDiags_def
            StoreHint_def isEnableForm_def CategoryOfHint_def NoHints_def)
  }
  {
    assume "getOption B = Vectorize \<and> getValue B = 0 \<and> getOption W = VectorizeWidth"
    then show "newDiags S (CheckForIncompatibleAttributes S [LoopHint B, LoopHint W]) =
        [\<lparr>DiagLoc = getBegin (getHintRange W), ID = err_pragma_loop_compatibility,
          Args = [ArgBool False, ArgDiagnosticName B, ArgDiagnosticName W]\<rparr>]"
      by (simp add: newDiags_Check hintsOf_def DuplicateDiags_def IncompatibleDiags_def
            StoreHint_def isEnableForm_def CategoryOfHint_def NoHints_def CompatibilityDiag_def)
  }
  {
    assume "getOption B = Unroll \<and> getOption W = UnrollCount"
    then show "newDiags S (CheckForIncompatibleAttributes S [LoopHint B, LoopHint W]) =
        [\<lparr>DiagLoc = getBegin (getHintRange W), ID = err_pragma_loop_compatibility,
          Args = [ArgBool False, ArgDiagnosticName B, ArgDiagnosticName W]\<rparr>]"
      by (simp add: newDiags_Check hintsOf_def DuplicateDiags_def IncompatibleDiags_def
            StoreHint_def isEnableForm_def CategoryOfHint_def NoHints_def CompatibilityDiag_def)
  }
qed

theorem incompatible_hint_emitted_witness:
  "getOption (exHint Unroll 1 40) = Unroll \<and>
   getOption (exHint UnrollCount 4 50) = UnrollCount \<and>
   newDiags exSema (CheckForIncompatibleAttributes exSema
       [LoopHint (exHint Unroll 1 40), LoopHint (exHint UnrollCount 4 50)]) =
     [\<lparr>DiagLoc = 50, ID = err_pragma_loop_compatibility,
       Args = [ArgBool False, ArgDiagnosticName (exHint Unroll 1 40),
               ArgDiagnosticName (exHint UnrollCount 4 50)]\<rparr>] \<and>
   getOption (exHint Vectorize 1 40) = Vectorize \<and>
   getValue (exHint Vectorize 1 40) \<noteq> 0 \<and>
   getOption (exHint VectorizeWidth 8 50) = VectorizeWidth \<and>
   newDiags exSema (CheckForIncompatibleAttributes exSema
       [LoopHint (exHint Vectorize 1 40), LoopHint (exHint VectorizeWidth 8 50)]) = [] \<and>
   getOption (exHint Vectorize 0 40) = Vectorize \<and>
   getValue (exHint Vectorize 0 40) = 0 \<and>
   newDiags exSema (CheckForIncompatibleAttributes exSema
       [LoopHint (exHint Vectorize 0 40), LoopHint (exHint VectorizeWidth 8 50)]) =
     [\<lparr>DiagLoc = 50, ID = err_pragma_loop_compatibility,
       Args = [ArgBool False, ArgDiagnosticName (exHint Vectorize 0 40),
               ArgDiagnosticName (exHint VectorizeWidth 8 50)]\<rparr>]"
  using incompatible_hint_emitted
          [where B = "exHint Unroll 1 40" and W = "exHint UnrollCount 4 50" and S = exSema]
        incompatible_hint_emitted
          [where B = "exHint Vectorize 1 40" and W = "exHint VectorizeWidth 8 50" and S = exSema]
        incompatible_hint_emitted
          [where B = "exHint Vectorize 0 40" and W = "exHint VectorizeWidth 8 50" and S = exSema]
  by (simp add: exHint_def)

text \<open>
  C2, as stated, at two sequences. The claim allows one duplicate and one
  incompatibility diagnostic per category, however many hints of the category there
  are. Every round of the loop reports on its own: three \<open>vectorize_width\<close> hints give
  two duplicate diagnostics, and \<open>vectorize(disable)\<close> followed by two
  \<open>vectorize_width\<close> hints gives two incompatibility diagnostics.
\<close>

theorem one_diagnostic_per_category_counterexample:
  "\<not> length (DuplicateHintsIn CatVectorize
        (newDiags exSema (CheckForIncompatibleAttributes exSema
           [LoopHint (exHint VectorizeWidth 4 40), LoopHint (exHint VectorizeWidth 8 50),
            LoopHint (exHint VectorizeWidth 16 60)]))) \<le> 1 \<and>
   \<not> length (IncompatibleHintsIn CatVectorize
        (newDiags exSema (CheckForIncompatibleAttributes exSema
           [LoopHint (exHint Vectorize 0 40), LoopHint (exHint VectorizeWidth 4 50),
            LoopHint (exHint VectorizeWidth 8 60)]))) \<le> 1"
  by (simp add: newDiags_def CheckForIncompatibleAttributes_def CheckHint_def Diag_def
        exSema_def NoHints_def exHint_def DuplicateHintsIn_def IncompatibleHintsIn_def
        isDuplicateHint_def isIncompatibleHint_def DiagCategory_def CategoryOfHint_def)

text \<open>
  C2, amended. Every round of the loop emits, over all categories, at most one
  duplicate and at most one incompatibility diagnostic, and the round of the first
  hint of a category emits nothing. So for a category in which \<open>k\<close> hints are
  attached, the checker emits at most \<open>k - 1\<close> duplicate and at most \<open>k - 1\<close>
  incompatibility diagnostics (none when \<open>k = 0\<close>): at most one of each when the
  category has no more than two hints.
\<close>

theorem diagnostics_per_category_bound:
  "length (DuplicateHintsIn c (newDiags S (CheckForIncompatibleAttributes S Attrs)))
     \<le> length (inCategory c (hintsOf Attrs)) - 1 \<and>
   length (IncompatibleHintsIn c (newDiags S (CheckForIncompatibleAttributes S Attrs)))
     \<le> length (inCategory c (hintsOf Attrs)) - 1 \<and>
   length (DuplicateHintsIn c
        (newDiags (CheckForIncompatibleAttributes S Attrs)
                  (CheckForIncompatibleAttributes S (Attrs @ [LoopHint LH])))) \<le> 1 \<and>
   length (IncompatibleHintsIn c
        (newDiags (CheckForIncompatibleAttributes S Attrs)
                  (CheckForIncompatibleAttributes S (Attrs @ [LoopHint LH])))) \<le> 1 \<and>
   length (filter isDuplicateHint
        (newDiags (CheckForIncompatibleAttributes S Attrs)
                  (CheckForIncompatibleAttributes S (Attrs @ [LoopHint LH])))) \<le> 1 \<and>
   length (filter isIncompatibleHint
        (newDiags (CheckForIncompatibleAttributes S Attrs)
                  (CheckForIncompatibleAttributes S (Attrs @ [LoopHint LH])))) \<le> 1 \<and>
   (inCategory (CategoryOfHint LH) (hintsOf Attrs) = [] \<longrightarrow>
      newDiags (CheckForIncompatibleAttributes S Attrs)
               (CheckForIncompatibleAttributes S (Attrs @ [LoopHint LH])) = [])"
proof (intro conjI impI)
  show "length (DuplicateHintsIn c (newDiags S (CheckForIncompatibleAttributes S Attrs)))
     \<le> length (inCategory c (hintsOf Attrs)) - 1"
    using Duplicate_bound [of c NoHints "hintsOf Attrs"]
    by (simp add: newDiags_Check occupied_def NoHints_def)
  show "length (IncompatibleHintsIn c (newDiags S (CheckForIncompatibleAttributes S Attrs)))
     \<le> length (inCategory c (hintsOf Attrs)) - 1"
    using Incompatible_bound [OF slotsInCategory_NoHints, of c "hintsOf Attrs"]
    by (simp add: newDiags_Check occupied_def NoHints_def)
  show "length (DuplicateHintsIn c
        (newDiags (CheckForIncompatibleAttributes S Attrs)
                  (CheckForIncompatibleAttributes S (Attrs @ [LoopHint LH])))) \<le> 1"
    unfolding step_newDiags by (rule Duplicate_step_le)
  show "length (IncompatibleHintsIn c
        (newDiags (CheckForIncompatibleAttributes S Attrs)
                  (CheckForIncompatibleAttributes S (Attrs @ [LoopHint LH])))) \<le> 1"
    unfolding step_newDiags by (rule Incompatible_step_le)
  show "length (filter isDuplicateHint
        (newDiags (CheckForIncompatibleAttributes S Attrs)
                  (CheckForIncompatibleAttributes S (Attrs @ [LoopHint LH])))) \<le> 1"
    unfolding step_newDiags by (rule Duplicate_step_total)
  show "length (filter isIncompatibleHint
        (newDiags (CheckForIncompatibleAttributes S Attrs)
                  (CheckForIncompatibleAttributes S (Attrs @ [LoopHint LH])))) \<le> 1"
    unfolding step_newDiags by (rule Incompatible_step_total)
  assume "inCategory (CategoryOfHint LH) (hintsOf Attrs) = []"
  then show "newDiags (CheckForIncompatibleAttributes S Attrs)
               (CheckForIncompatibleAttributes S (Attrs @ [LoopHint LH])) = []"
    unfolding step_newDiags by (rule first_hint_step)
qed

theorem diagnostics_per_category_bound_witness:
  "length (DuplicateHintsIn CatVectorize
      (newDiags exSema (CheckForIncompatibleAttributes exSema
         [LoopHint (exHint VectorizeWidth 4 40), LoopHint (exHint VectorizeWidth 8 50)]))) \<le> 1 \<and>
   length (inCategory CatVectorize
      (hintsOf [LoopHint (exHint VectorizeWidth 4 40), LoopHint (exHint VectorizeWidth 8 50)]))
     = 2 \<and>
   inCategory (CategoryOfHint (exHint Unroll 1 60))
      (hintsOf [LoopHint (exHint VectorizeWidth 4 40), LoopHint (exHint VectorizeWidth 8 50)])
     = [] \<and>
   newDiags
      (CheckForIncompatibleAttributes exSema
         [LoopHint (exHint VectorizeWidth 4 40), LoopHint (exHint VectorizeWidth 8 50)])
      (CheckForIncompatibleAttributes exSema
         ([LoopHint (exHint VectorizeWidth 4 40), LoopHint (exHint VectorizeWidth 8 50)] @
          [LoopHint (exHint Unroll 1 60)])) = []"
  using diagnostics_per_category_bound
          [of CatVectorize exSema
              "[LoopHint (exHint VectorizeWidth 4 40), LoopHint (exHint VectorizeWidth 8 50)]"
              "exHint Unroll 1 60"]
  by (simp add: inCategory_def hintsOf_def exHint_def CategoryOfHint_def)

end
